theory Spec2Isabelle
  imports Complex_Main "HOL-Library.AList"
begin

section \<open>Data model (models.py)\<close>

text \<open>
  Each SQLAlchemy model is a record holding the columns the timetable service and the
  timetable routes read or write. Integer columns are Python integers (\<open>int\<close>), string
  columns are \<open>string\<close>. Field names carry a short prefix because record fields share one
  name space (\<open>id\<close> of \<open>Subject\<close> is \<open>sub_id\<close>, and so on).
\<close>

record ClassGroup =
  cls_id :: int
  cls_name :: string
  student_strength :: int

record Subject =
  sub_id :: int
  sub_name :: string
  sub_class_id :: int
  lectures_per_week :: int
  priority_morning :: bool
  is_lab :: bool

record Teacher =
  tch_id :: int
  max_lectures_per_day :: int

record Room =
  rm_id :: int
  capacity :: int
  room_type :: string

record TeacherSubject =
  ts_teacher_id :: int
  ts_subject_id :: int

record TimeSlot =
  slot_id :: int
  day_of_week :: string
  is_break :: bool
  slot_order :: int

record TeacherAvailability =
  av_teacher_id :: int
  av_time_slot_id :: int
  is_available :: bool

record TimetableVersion =
  ver_id :: int
  ver_name :: string
  score :: rat
  created_by :: int
  is_active :: bool

record TimetableEntry =
  version_id :: int
  class_id :: int
  subject_id :: int
  teacher_id :: int
  room_id :: int
  time_slot_id :: int
  is_locked :: bool

record ConflictLog =
  cl_version_id :: int
  conflict_type :: string
  message :: string

text \<open>
  The tables the generator only reads (the problem instance) and the tables it writes
  (the schedule store).
\<close>

record instance_db =
  classes :: "ClassGroup list"
  subjects :: "Subject list"
  teachers :: "Teacher list"
  rooms :: "Room list"
  teacher_subject :: "TeacherSubject list"
  time_slots :: "TimeSlot list"
  availability :: "TeacherAvailability list"

record store =
  versions :: "TimetableVersion list"
  entries :: "TimetableEntry list"
  conflicts :: "ConflictLog list"

datatype error = TypeError | KeyError

section \<open>The process-wide random generator\<close>

text \<open>
  \<open>generate_timetable\<close> draws from Python's module-level generator, which the service
  never seeds. Its state is modelled as a sequence of raw draws and a read position;
  \<open>randbelow n\<close> reduces the next draw into \<open>[0, n)\<close>. \<open>shuffle\<close> is the loop of
  \<open>random.shuffle\<close>: for \<open>i\<close> from \<open>len(x) - 1\<close> down to \<open>1\<close>, exchange \<open>x[i]\<close> with
  \<open>x[randbelow(i + 1)]\<close>.
\<close>

record rng =
  draws :: "nat \<Rightarrow> nat"
  pos :: nat

definition randbelow :: "nat \<Rightarrow> rng \<Rightarrow> nat \<times> rng" where
  "randbelow n g = (draws g (pos g) mod n, g\<lparr>pos := Suc (pos g)\<rparr>)"

definition swap :: "nat \<Rightarrow> nat \<Rightarrow> 'a list \<Rightarrow> 'a list" where
  "swap i j xs = xs[i := xs ! j, j := xs ! i]"

fun shuffle_loop :: "nat \<Rightarrow> 'a list \<Rightarrow> rng \<Rightarrow> 'a list \<times> rng" where
  "shuffle_loop 0 xs g = (xs, g)"
| "shuffle_loop (Suc i) xs g =
     (case randbelow (Suc (Suc i)) g of (j, g') \<Rightarrow> shuffle_loop i (swap (Suc i) j xs) g')"

definition shuffle :: "'a list \<Rightarrow> rng \<Rightarrow> 'a list \<times> rng" where
  "shuffle xs g = shuffle_loop (length xs - 1) xs g"

section \<open>Demand expander (generate_timetable, lines 109-125)\<close>

datatype kind = L | T

record item =
  it_class_id :: int
  it_subject_id :: int
  it_type :: kind

text \<open>The string order of the two type tags: \<open>"L" < "T"\<close>.\<close>

fun kind_key :: "kind \<Rightarrow> nat" where
  "kind_key L = 0"
| "kind_key T = 1"

text \<open>\<open>range(k)\<close> is empty for a negative \<open>k\<close>; \<open>//\<close> is floor division.\<close>

definition lab_items :: "ClassGroup \<Rightarrow> Subject \<Rightarrow> item list" where
  "lab_items c s =
     (if is_lab s
      then replicate (nat (lectures_per_week s div 2))
             \<lparr>it_class_id = cls_id c, it_subject_id = sub_id s, it_type = L\<rparr>
      else [])"

definition theory_items :: "ClassGroup \<Rightarrow> Subject \<Rightarrow> item list" where
  "theory_items c s =
     (if is_lab s then []
      else replicate (nat (lectures_per_week s))
             \<lparr>it_class_id = cls_id c, it_subject_id = sub_id s, it_type = T\<rparr>)"

definition class_demand :: "Subject list \<Rightarrow> ClassGroup \<Rightarrow> item list" where
  "class_demand subs c =
     (let c_subs = filter (\<lambda>s. sub_class_id s = cls_id c) subs;
          l_items = concat (map (lab_items c) c_subs);
          t_items = concat (map (theory_items c) c_subs)
      in l_items @ t_items)"

text \<open>
  \<open>list.sort(key=..., reverse=True)\<close> is a stable sort into descending key order: the
  list is reversed, sorted stably into ascending order, and reversed again.
\<close>

definition sort_by_type_reverse :: "item list \<Rightarrow> item list" where
  "sort_by_type_reverse xs = rev (sort_key (\<lambda>x. kind_key (it_type x)) (rev xs))"

definition expand_items :: "instance_db \<Rightarrow> rng \<Rightarrow> item list \<times> rng" where
  "expand_items db g =
     (case shuffle (concat (map (class_demand (subjects db)) (classes db))) g of
        (shuffled, g') \<Rightarrow> (sort_by_type_reverse shuffled, g'))"

section \<open>Grid builder (lines 127-159)\<close>

text \<open>
  A block is the dictionary \<open>{"slots", "type", "item"}\<close>; a filled block holds the
  dictionary \<open>{"subject_id", "teacher_id", "room_id"}\<close>.
\<close>

record placed =
  p_subject_id :: int
  p_teacher_id :: int
  p_room_id :: int

record block =
  slots :: "int list"
  btype :: kind
  bitem :: "placed option"

definition days_order :: "string list" where
  "days_order = [''Monday'', ''Tuesday'', ''Wednesday'', ''Thursday'', ''Friday'']"

definition heavy_day :: "block list" where
  "heavy_day =
     [\<lparr>slots = [1, 2], btype = L, bitem = None\<rparr>,
      \<lparr>slots = [5, 6], btype = L, bitem = None\<rparr>,
      \<lparr>slots = [3], btype = T, bitem = None\<rparr>,
      \<lparr>slots = [8], btype = T, bitem = None\<rparr>,
      \<lparr>slots = [9], btype = T, bitem = None\<rparr>]"

definition light_day :: "block list" where
  "light_day =
     [\<lparr>slots = [1, 2], btype = L, bitem = None\<rparr>,
      \<lparr>slots = [3], btype = T, bitem = None\<rparr>,
      \<lparr>slots = [5], btype = T, bitem = None\<rparr>,
      \<lparr>slots = [6], btype = T, bitem = None\<rparr>]"

text \<open>
  \<open>c_grid\<close> and \<open>class_grids\<close> are dictionaries: assigning to a key already present
  replaces the value and keeps the key's position, which is \<open>AList.update\<close>.
\<close>

type_synonym grid = "(string \<times> block list) list"

fun day_grid :: "nat \<Rightarrow> string list \<Rightarrow> grid \<Rightarrow> grid" where
  "day_grid i [] c_grid = c_grid"
| "day_grid i (d # ds) c_grid =
     day_grid (Suc i) ds (AList.update d (if i < 3 then heavy_day else light_day) c_grid)"

fun build_grids :: "ClassGroup list \<Rightarrow> (int \<times> grid) list \<Rightarrow> rng \<Rightarrow> (int \<times> grid) list \<times> rng" where
  "build_grids [] class_grids g = (class_grids, g)"
| "build_grids (c # cs) class_grids g =
     (case shuffle days_order g of
        (days_shuffled, g') \<Rightarrow>
          build_grids cs (AList.update (cls_id c) (day_grid 0 days_shuffled []) class_grids) g')"

text \<open>
  An element of \<open>empty_blocks\<close> is \<open>{"class_id", "day", "block"}\<close>, where \<open>block\<close> is the
  very object stored in \<open>class_grids\<close>. The model keeps one copy of every block, in the
  list \<open>empty_blocks\<close>, and reads \<open>class_grids[c_id][day]\<close> back from it: the keys of
  \<open>class_grids\<close> and the days of a grid are distinct, so the blocks of that grid cell are
  the elements of \<open>empty_blocks\<close> with that class and day, in the same order.
\<close>

record eblock =
  eb_class_id :: int
  eb_day :: string
  eb_block :: block

definition grid_blocks :: "int \<times> grid \<Rightarrow> eblock list" where
  "grid_blocks cg =
     concat (map (\<lambda>(day, blocks).
       map (\<lambda>b. \<lparr>eb_class_id = fst cg, eb_day = day, eb_block = b\<rparr>) blocks) (snd cg))"

definition all_blocks :: "(int \<times> grid) list \<Rightarrow> eblock list" where
  "all_blocks class_grids = concat (map grid_blocks class_grids)"

section \<open>Search core (place_item, lines 161-232)\<close>

text \<open>
  \<open>t_map\<close> and \<open>slot_map\<close> are dictionaries filled in a loop, so a later row with the
  same key wins. \<open>TimeSlot.query.filter_by(is_break=False).order_by(...)\<close> is the table
  without its break rows; the ordering only decides which of two rows with the same
  (day, order) is read last, which SQL leaves open, and the model reads the rows in table
  order.
\<close>

definition build_t_map :: "TeacherSubject list \<Rightarrow> (int \<rightharpoonup> int)" where
  "build_t_map tss = foldl (\<lambda>m ts. m(ts_subject_id ts \<mapsto> ts_teacher_id ts)) Map.empty tss"

definition build_slot_map :: "TimeSlot list \<Rightarrow> (string \<times> int \<rightharpoonup> int)" where
  "build_slot_map ss =
     foldl (\<lambda>m s. m((day_of_week s, slot_order s) \<mapsto> slot_id s)) Map.empty
       (filter (\<lambda>s. \<not> is_break s) ss)"

record search_ctx =
  t_map :: "int \<rightharpoonup> int"
  slot_map :: "string \<times> int \<rightharpoonup> int"
  classrooms :: "Room list"
  lab_rooms :: "Room list"

definition make_ctx :: "instance_db \<Rightarrow> search_ctx" where
  "make_ctx db =
     \<lparr>t_map = build_t_map (teacher_subject db),
      slot_map = build_slot_map (time_slots db),
      classrooms = filter (\<lambda>r. room_type r = ''classroom'') (rooms db),
      lab_rooms = filter (\<lambda>r. room_type r = ''lab'') (rooms db)\<rparr>"

record search_state =
  empty_blocks :: "eblock list"
  teacher_busy :: "(int \<times> int) set"
  room_busy :: "(int \<times> int) set"
  gen :: rng

text \<open>
  The two inner loops over \<open>block["slots"]\<close> (lines 189-193 and 203-207): a slot that
  \<open>slot_map\<close> does not know, or knows under the id 0, counts as a conflict.
\<close>

definition slot_conflict :: "search_ctx \<Rightarrow> string \<Rightarrow> int list \<Rightarrow> int \<Rightarrow> (int \<times> int) set \<Rightarrow> bool" where
  "slot_conflict cx day ss who busy =
     list_ex (\<lambda>s_idx. case slot_map cx (day, s_idx) of
                         None \<Rightarrow> True
                       | Some ts_id \<Rightarrow> ts_id = 0 \<or> (who, ts_id) \<in> busy) ss"

definition set_item :: "nat \<Rightarrow> placed option \<Rightarrow> eblock list \<Rightarrow> eblock list" where
  "set_item i v ebs = ebs[i := (ebs ! i)\<lparr>eb_block := (eb_block (ebs ! i))\<lparr>bitem := v\<rparr>\<rparr>]"

text \<open>Lines 218-223: \<open>slot_map[...]\<close> raises KeyError on a missing key.\<close>

fun slot_ids :: "search_ctx \<Rightarrow> string \<Rightarrow> int list \<Rightarrow> error + int list" where
  "slot_ids cx day [] = Inr []"
| "slot_ids cx day (s_idx # ss) =
     (case slot_map cx (day, s_idx) of
        None \<Rightarrow> Inl KeyError
      | Some ts_id \<Rightarrow> (case slot_ids cx day ss of Inl e \<Rightarrow> Inl e | Inr ids \<Rightarrow> Inr (ts_id # ids)))"

text \<open>Lines 229-230: \<open>set.remove\<close> raises KeyError when the key is absent.\<close>

fun remove_keys :: "'a list \<Rightarrow> 'a set \<Rightarrow> error + 'a set" where
  "remove_keys [] busy = Inr busy"
| "remove_keys (k # ks) busy =
     (if k \<in> busy then remove_keys ks (busy - {k}) else Inl KeyError)"

definition valid_blocks :: "item \<Rightarrow> eblock list \<Rightarrow> nat list" where
  "valid_blocks it ebs =
     filter (\<lambda>i. eb_class_id (ebs ! i) = it_class_id it
                \<and> btype (eb_block (ebs ! i)) = it_type it
                \<and> bitem (eb_block (ebs ! i)) = None) [0..<length ebs]"

definition daily_subs :: "int \<Rightarrow> string \<Rightarrow> eblock list \<Rightarrow> int list" where
  "daily_subs c_id day ebs =
     map (\<lambda>b. p_subject_id (the (bitem (eb_block b))))
       (filter (\<lambda>b. eb_class_id b = c_id \<and> eb_day b = day \<and> bitem (eb_block b) \<noteq> None) ebs)"

definition pick_room :: "search_ctx \<Rightarrow> string \<Rightarrow> int list \<Rightarrow> (int \<times> int) set \<Rightarrow> Room list \<Rightarrow> int option" where
  "pick_room cx day ss busy shuffled_rooms =
     map_option rm_id (find (\<lambda>r. \<not> slot_conflict cx day ss (rm_id r) busy) shuffled_rooms)"

text \<open>
  \<open>place_item\<close> takes the items still to place, \<open>class_items[item_idx:]\<close>; the empty list
  is \<open>item_idx == len(class_items)\<close>. \<open>try_blocks\<close> is the loop over \<open>valid_blocks\<close>,
  which holds references to blocks: positions in \<open>empty_blocks\<close>.
\<close>

fun place_item :: "search_ctx \<Rightarrow> item list \<Rightarrow> search_state \<Rightarrow> error + bool \<times> search_state"
  and try_blocks :: "search_ctx \<Rightarrow> item \<Rightarrow> item list \<Rightarrow> int \<Rightarrow> nat list \<Rightarrow> search_state
                      \<Rightarrow> error + bool \<times> search_state" where
  "place_item cx [] st = Inr (True, st)"
| "place_item cx (it # rest) st =
     (case t_map cx (it_subject_id it) of
        None \<Rightarrow> Inr (False, st)
      | Some teacher \<Rightarrow>
          if teacher = 0 then Inr (False, st)
          else (case shuffle (valid_blocks it (empty_blocks st)) (gen st) of
                  (vbs, g') \<Rightarrow> try_blocks cx it rest teacher vbs (st\<lparr>gen := g'\<rparr>)))"
| "try_blocks cx it rest teacher [] st = Inr (False, st)"
| "try_blocks cx it rest teacher (vb # vbs) st =
     (let day = eb_day (empty_blocks st ! vb);
          ss = slots (eb_block (empty_blocks st ! vb))
      in if it_subject_id it \<in> set (daily_subs (it_class_id it) day (empty_blocks st))
         then try_blocks cx it rest teacher vbs st
         else if slot_conflict cx day ss teacher (teacher_busy st)
         then try_blocks cx it rest teacher vbs st
         else (case shuffle (if it_type it = T then classrooms cx else lab_rooms cx) (gen st) of
                 (shuffled_rooms, g') \<Rightarrow>
                   (case pick_room cx day ss (room_busy st) shuffled_rooms of
                      None \<Rightarrow> try_blocks cx it rest teacher vbs (st\<lparr>gen := g'\<rparr>)
                    | Some room \<Rightarrow>
                        if room = 0 then try_blocks cx it rest teacher vbs (st\<lparr>gen := g'\<rparr>)
                        else (case slot_ids cx day ss of
                                Inl e \<Rightarrow> Inl e
                              | Inr ids \<Rightarrow>
                                  (case place_item cx rest
                                          (st\<lparr>empty_blocks := set_item vb
                                                  (Some \<lparr>p_subject_id = it_subject_id it,
                                                         p_teacher_id = teacher,
                                                         p_room_id = room\<rparr>) (empty_blocks st),
                                               teacher_busy := teacher_busy st \<union> set (map (Pair teacher) ids),
                                               room_busy := room_busy st \<union> set (map (Pair room) ids),
                                               gen := g'\<rparr>) of
                                     Inl e \<Rightarrow> Inl e
                                   | Inr (True, st') \<Rightarrow> Inr (True, st')
                                   | Inr (False, st') \<Rightarrow>
                                       (case remove_keys (map (Pair teacher) ids) (teacher_busy st') of
                                          Inl e \<Rightarrow> Inl e
                                        | Inr tb \<Rightarrow>
                                            (case remove_keys (map (Pair room) ids) (room_busy st') of
                                               Inl e \<Rightarrow> Inl e
                                             | Inr rb \<Rightarrow>
                                                 try_blocks cx it rest teacher vbs
                                                   (st'\<lparr>empty_blocks := set_item vb None (empty_blocks st'),
                                                        teacher_busy := tb,
                                                        room_busy := rb\<rparr>))))))))"

section \<open>Persistence and selection (lines 234-274)\<close>

text \<open>Decimal rendering of the index in the f-string \<open>f"Auto Formatted {index + 1}"\<close>.\<close>

fun str_nat :: "nat \<Rightarrow> string" where
  "str_nat n =
     (if n < 10 then [''0123456789'' ! n]
      else str_nat (n div 10) @ [''0123456789'' ! (n mod 10)])"

declare str_nat.simps [simp del]

text \<open>
  \<open>db.session.flush()\<close> gives the new version its primary key. The configured database is
  SQLite, which numbers a new row one above the largest key of the table (1 in an empty
  table), as long as that key is below the largest 64-bit integer; the model covers
  tables that have not reached it.
\<close>

definition next_id :: "int list \<Rightarrow> int" where
  "next_id ids = (case ids of [] \<Rightarrow> 1 | x # xs \<Rightarrow> fold max xs x + 1)"

text \<open>
  The persistence loop (lines 241-256). For every slot of every block it first reads
  \<open>slot_map[(day, s_idx)]\<close>, a KeyError on a missing key, and then subscripts \<open>item\<close>,
  a TypeError when the block was left empty (\<open>item\<close> is \<open>None\<close>).
\<close>

fun block_entries :: "search_ctx \<Rightarrow> int \<Rightarrow> eblock \<Rightarrow> int list \<Rightarrow> error + TimetableEntry list" where
  "block_entries cx vid eb [] = Inr []"
| "block_entries cx vid eb (s_idx # ss) =
     (case slot_map cx (eb_day eb, s_idx) of
        None \<Rightarrow> Inl KeyError
      | Some ts_id \<Rightarrow>
          (case bitem (eb_block eb) of
             None \<Rightarrow> Inl TypeError
           | Some it \<Rightarrow>
               (case block_entries cx vid eb ss of
                  Inl e \<Rightarrow> Inl e
                | Inr es \<Rightarrow>
                    Inr (\<lparr>version_id = vid, class_id = eb_class_id eb,
                          subject_id = p_subject_id it, teacher_id = p_teacher_id it,
                          room_id = p_room_id it, time_slot_id = ts_id,
                          is_locked = False\<rparr> # es))))"

fun persist_blocks :: "search_ctx \<Rightarrow> int \<Rightarrow> eblock list \<Rightarrow> error + TimetableEntry list" where
  "persist_blocks cx vid [] = Inr []"
| "persist_blocks cx vid (eb # ebs) =
     (case block_entries cx vid eb (slots (eb_block eb)) of
        Inl e \<Rightarrow> Inl e
      | Inr es \<Rightarrow>
          (case persist_blocks cx vid ebs of
             Inl e \<Rightarrow> Inl e
           | Inr es' \<Rightarrow> Inr (es @ es')))"

text \<open>
  One iteration of the loop over \<open>range(num_versions)\<close>. An exception leaves the
  iteration before its \<open>commit\<close>, so nothing of the iteration reaches the store.
\<close>

definition candidate :: "int \<Rightarrow> instance_db \<Rightarrow> nat \<Rightarrow> store \<Rightarrow> rng
    \<Rightarrow> error + TimetableVersion \<times> store \<times> rng" where
  "candidate creator db index st g =
     (case expand_items db g of
        (class_items, g1) \<Rightarrow>
     (case build_grids (classes db) [] g1 of
        (class_grids, g2) \<Rightarrow>
     (case place_item (make_ctx db) class_items
             \<lparr>empty_blocks = all_blocks class_grids, teacher_busy = {}, room_busy = {}, gen = g2\<rparr> of
        Inl e \<Rightarrow> Inl e
      | Inr (success, s') \<Rightarrow>
          (let vid = next_id (map ver_id (versions st));
               version = \<lparr>ver_id = vid, ver_name = ''Auto Formatted '' @ str_nat (index + 1),
                          score = 0, created_by = creator, is_active = False\<rparr>
           in if success then
                (case persist_blocks (make_ctx db) vid (empty_blocks s') of
                   Inl e \<Rightarrow> Inl e
                 | Inr es \<Rightarrow>
                     Inr (version\<lparr>score := 100\<rparr>,
                          \<lparr>versions = versions st @ [version\<lparr>score := 100\<rparr>],
                           entries = entries st @ es,
                           conflicts = conflicts st @
                             [\<lparr>cl_version_id = vid, conflict_type = ''Success'',
                               message = ''Contiguous Generation Successful''\<rparr>]\<rparr>,
                          gen s'))
              else
                Inr (version\<lparr>score := 0\<rparr>,
                     \<lparr>versions = versions st @ [version\<lparr>score := 0\<rparr>],
                      entries = entries st,
                      conflicts = conflicts st @
                        [\<lparr>cl_version_id = vid, conflict_type = ''generation_failed'',
                          message = ''Constraints too strict to find contiguous solution.''\<rparr>]\<rparr>,
                     gen s')))))"

text \<open>
  The result of a call: either an exception, with the store as last committed, or the
  returned list of versions with the store and the generator state after the call.
\<close>

datatype gen_result =
    Raised error store
  | Returned "TimetableVersion list" store rng

fun candidates :: "int \<Rightarrow> instance_db \<Rightarrow> nat list \<Rightarrow> TimetableVersion list \<Rightarrow> store \<Rightarrow> rng
    \<Rightarrow> gen_result" where
  "candidates creator db [] generated_versions st g = Returned generated_versions st g"
| "candidates creator db (index # rest) generated_versions st g =
     (case candidate creator db index st g of
        Inl e \<Rightarrow> Raised e st
      | Inr (version, st', g') \<Rightarrow>
          candidates creator db rest (generated_versions @ [version]) st' g')"

text \<open>\<open>max(generated_versions, key=lambda v: v.score)\<close>: the first version of maximal score.\<close>

fun best_of :: "TimetableVersion \<Rightarrow> TimetableVersion list \<Rightarrow> TimetableVersion" where
  "best_of b [] = b"
| "best_of b (v # vs) = best_of (if score b < score v then v else b) vs"

text \<open>
  \<open>TimetableVersion.query.update({"is_active": False})\<close> followed by
  \<open>row.is_active = True\<close> on the row with the given primary key.
\<close>

definition activate_only :: "int \<Rightarrow> TimetableVersion list \<Rightarrow> TimetableVersion list" where
  "activate_only vid vs =
     map (\<lambda>v. if ver_id v = vid then v\<lparr>is_active := True\<rparr> else v)
       (map (\<lambda>v. v\<lparr>is_active := False\<rparr>) vs)"

definition generate_timetable :: "int \<Rightarrow> int \<Rightarrow> int \<Rightarrow> instance_db \<Rightarrow> store \<Rightarrow> rng \<Rightarrow> gen_result" where
  "generate_timetable creator num_versions max_retries db st g =
     (case candidates creator db [0..<nat num_versions] [] st g of
        Raised e st' \<Rightarrow> Raised e st'
      | Returned generated_versions st' g' \<Rightarrow>
          (case generated_versions of
             [] \<Rightarrow> Returned [] st' g'
           | v # vs \<Rightarrow>
               (let best = best_of v vs
                in Returned
                     (map (\<lambda>x. if ver_id x = ver_id best then x\<lparr>is_active := True\<rparr> else x)
                        generated_versions)
                     (st'\<lparr>versions := activate_only (ver_id best) (versions st')\<rparr>)
                     g')))"

section \<open>Conflict detector (detect_conflicts, lines 26-73)\<close>

text \<open>\<open>str\<close> of an integer, as the f-strings of the messages print it.\<close>

definition str_int :: "int \<Rightarrow> string" where
  "str_int i = (if i < 0 then ''-'' @ str_nat (nat (- i)) else str_nat (nat i))"

text \<open>A dictionary comprehension \<open>{r.id: r for r in rows}\<close>: the last row of a key wins.\<close>

definition by_id :: "('a \<Rightarrow> int) \<Rightarrow> 'a list \<Rightarrow> (int \<rightharpoonup> 'a)" where
  "by_id key rows = foldl (\<lambda>m r. m(key r \<mapsto> r)) Map.empty rows"

record conflict =
  c_type :: string
  c_message :: string

record detect_state =
  found :: "conflict list"
  seen_teacher :: "(int \<times> int) set"
  seen_room :: "(int \<times> int) set"
  seen_class :: "(int \<times> int) set"
  daily_subject :: "(int \<times> string \<times> int) set"
  teacher_daily_count :: "int \<times> string \<Rightarrow> int"

definition detect_start :: detect_state where
  "detect_start =
     \<lparr>found = [], seen_teacher = {}, seen_room = {}, seen_class = {}, daily_subject = {},
      teacher_daily_count = (\<lambda>_. 0)\<rparr>"

text \<open>\<open>if cond: conflicts.append({"type": ..., "message": ...})\<close>\<close>

definition report_if :: "bool \<Rightarrow> string \<Rightarrow> string \<Rightarrow> conflict list" where
  "report_if cond ty msg = (if cond then [\<lparr>c_type = ty, c_message = msg\<rparr>] else [])"

text \<open>
  The body of the loop over the entries. Subscripting one of the four dictionaries with
  an id it does not hold raises KeyError.
\<close>

definition detect_entry :: "(int \<rightharpoonup> TimeSlot) \<Rightarrow> (int \<rightharpoonup> Teacher) \<Rightarrow> (int \<rightharpoonup> ClassGroup)
    \<Rightarrow> (int \<rightharpoonup> Room) \<Rightarrow> TimetableEntry \<Rightarrow> detect_state \<Rightarrow> error + detect_state" where
  "detect_entry slot_of teacher_of class_of room_of e ds =
     (case slot_of (time_slot_id e) of
        None \<Rightarrow> Inl KeyError
      | Some slot \<Rightarrow>
     (case room_of (room_id e) of
        None \<Rightarrow> Inl KeyError
      | Some room \<Rightarrow>
     (case class_of (class_id e) of
        None \<Rightarrow> Inl KeyError
      | Some cls \<Rightarrow>
     (case teacher_of (teacher_id e) of
        None \<Rightarrow> Inl KeyError
      | Some teacher \<Rightarrow>
          (let key_teacher = (teacher_id e, time_slot_id e);
               key_room = (room_id e, time_slot_id e);
               key_class = (class_id e, time_slot_id e);
               day_key = (class_id e, day_of_week slot, subject_id e);
               teacher_day = (teacher_id e, day_of_week slot);
               count = teacher_daily_count ds teacher_day + 1
           in Inr \<lparr>found = found ds
                     @ report_if (key_teacher \<in> seen_teacher ds) ''teacher_clash''
                         (''Teacher clash at slot '' @ str_int (time_slot_id e))
                     @ report_if (key_room \<in> seen_room ds) ''room_clash''
                         (''Room clash at slot '' @ str_int (time_slot_id e))
                     @ report_if (key_class \<in> seen_class ds) ''class_clash''
                         (''Class clash at slot '' @ str_int (time_slot_id e))
                     @ report_if (day_key \<in> daily_subject ds) ''subject_repeat''
                         (''Subject repetition for class '' @ str_int (class_id e))
                     @ report_if (capacity room < student_strength cls) ''room_capacity_mismatch''
                         (''Room '' @ str_int (room_id e) @ '' capacity is less than class ''
                            @ str_int (class_id e) @ '' strength'')
                     @ report_if (max_lectures_per_day teacher < count) ''teacher_overload''
                         (''Teacher '' @ str_int (teacher_id e) @ '' overloaded on ''
                            @ day_of_week slot),
                   seen_teacher = insert key_teacher (seen_teacher ds),
                   seen_room = insert key_room (seen_room ds),
                   seen_class = insert key_class (seen_class ds),
                   daily_subject = insert day_key (daily_subject ds),
                   teacher_daily_count = (teacher_daily_count ds)(teacher_day := count)\<rparr>)))))"

fun detect_loop :: "(int \<rightharpoonup> TimeSlot) \<Rightarrow> (int \<rightharpoonup> Teacher) \<Rightarrow> (int \<rightharpoonup> ClassGroup)
    \<Rightarrow> (int \<rightharpoonup> Room) \<Rightarrow> TimetableEntry list \<Rightarrow> detect_state \<Rightarrow> error + detect_state" where
  "detect_loop slot_of teacher_of class_of room_of [] ds = Inr ds"
| "detect_loop slot_of teacher_of class_of room_of (e # es) ds =
     (case detect_entry slot_of teacher_of class_of room_of e ds of
        Inl err \<Rightarrow> Inl err
      | Inr ds' \<Rightarrow> detect_loop slot_of teacher_of class_of room_of es ds')"

definition detect_conflicts :: "instance_db \<Rightarrow> store \<Rightarrow> int \<Rightarrow> error + conflict list" where
  "detect_conflicts db st vid =
     (case detect_loop (by_id slot_id (time_slots db)) (by_id tch_id (teachers db))
             (by_id cls_id (classes db)) (by_id rm_id (rooms db))
             (filter (\<lambda>e. version_id e = vid) (entries st)) detect_start of
        Inl err \<Rightarrow> Inl err
      | Inr ds \<Rightarrow> Inr (found ds))"

text \<open>The six types of record the detector can append.\<close>

definition detector_types :: "string set" where
  "detector_types =
     {''teacher_clash'', ''room_clash'', ''class_clash'', ''subject_repeat'',
      ''room_capacity_mismatch'', ''teacher_overload''}"

section \<open>Scorer (_score_schedule, lines 76-89)\<close>

text \<open>
  Scores are Python floats; the model computes with exact rationals. Every value the
  scorer reaches is a multiple of one tenth, so \<open>round(score, 2)\<close> never meets a tie and
  rounding to the nearest hundredth is all it does.
\<close>

fun morning_penalties :: "(int \<rightharpoonup> Subject) \<Rightarrow> (int \<rightharpoonup> TimeSlot) \<Rightarrow> TimetableEntry list
    \<Rightarrow> rat \<Rightarrow> error + rat" where
  "morning_penalties subject_of slot_of [] sc = Inr sc"
| "morning_penalties subject_of slot_of (e # es) sc =
     (case subject_of (subject_id e) of
        None \<Rightarrow> Inl KeyError
      | Some sub \<Rightarrow>
          (case slot_of (time_slot_id e) of
             None \<Rightarrow> Inl KeyError
           | Some slot \<Rightarrow>
               morning_penalties subject_of slot_of es
                 (if priority_morning sub \<and> 2 < slot_order slot then sc - 4 / 10 else sc)))"

definition round2 :: "rat \<Rightarrow> rat" where
  "round2 x = of_int (round (x * 100)) / 100"

definition score_schedule :: "instance_db \<Rightarrow> store \<Rightarrow> int \<Rightarrow> error + rat" where
  "score_schedule db st vid =
     (case morning_penalties (by_id sub_id (subjects db)) (by_id slot_id (time_slots db))
             (filter (\<lambda>e. version_id e = vid) (entries st)) 100 of
        Inl err \<Rightarrow> Inl err
      | Inr sc \<Rightarrow>
          (case detect_conflicts db st vid of
             Inl err \<Rightarrow> Inl err
           | Inr cs \<Rightarrow> Inr (max 0 (round2 (sc - of_nat (length cs) * 10)))))"

section \<open>Routes (timetable_routes.py: generate, lines 100-127; activate, lines 137-144)\<close>

text \<open>
  The responses of the two routes, after authentication. An exception that leaves the
  view is the framework's 500 response, and the request's session is rolled back.
\<close>

datatype response =
    Blocked "string list"
  | GenerationFailed
  | Created "TimetableVersion list"
  | ServerError error
  | Activated
  | NotFound

fun status_code :: "response \<Rightarrow> nat" where
  "status_code (Blocked issues) = 400"
| "status_code GenerationFailed = 400"
| "status_code (Created vs) = 201"
| "status_code (ServerError e) = 500"
| "status_code Activated = 200"
| "status_code NotFound = 404"

text \<open>
  The JSON body of the generate request, for bodies whose two fields are integers when
  present: \<open>None\<close> is an absent key, for which \<open>data.get\<close> supplies the default. A body
  that holds \<open>null\<close> or a non-integer under one of the keys is outside this type.
\<close>

record gen_request =
  req_num_versions :: "int option"
  req_max_retries :: "int option"

definition no_subjects_issue :: "ClassGroup \<Rightarrow> string" where
  "no_subjects_issue cls =
     ''Class '' @ [CHR 0x27] @ cls_name cls @ [CHR 0x27] @ '' has no subjects configured.''"

definition no_teacher_issue :: "Subject \<Rightarrow> ClassGroup \<Rightarrow> string" where
  "no_teacher_issue sub cls =
     ''Subject '' @ [CHR 0x27] @ sub_name sub @ [CHR 0x27] @ '' in class '' @ [CHR 0x27]
       @ cls_name cls @ [CHR 0x27] @ '' has no teacher mapping.''"

definition cls_subjects :: "instance_db \<Rightarrow> ClassGroup \<Rightarrow> Subject list" where
  "cls_subjects db cls = filter (\<lambda>s. sub_class_id s = cls_id cls) (subjects db)"

definition subject_ids_with_teachers :: "instance_db \<Rightarrow> int set" where
  "subject_ids_with_teachers db = set (map ts_subject_id (teacher_subject db))"

definition class_issues :: "instance_db \<Rightarrow> ClassGroup \<Rightarrow> string list" where
  "class_issues db cls =
     (if cls_subjects db cls = [] then [no_subjects_issue cls]
      else concat (map (\<lambda>sub. if sub_id sub \<notin> subject_ids_with_teachers db
                                 then [no_teacher_issue sub cls] else [])
                    (cls_subjects db cls)))"

definition setup_issues :: "instance_db \<Rightarrow> string list" where
  "setup_issues db = concat (map (class_issues db) (classes db))"

definition generate :: "gen_request \<Rightarrow> int \<Rightarrow> instance_db \<Rightarrow> store \<Rightarrow> rng \<Rightarrow> response \<times> store" where
  "generate data identity db st g =
     (if setup_issues db \<noteq> [] then (Blocked (setup_issues db), st)
      else (case generate_timetable identity
                   (case req_num_versions data of None \<Rightarrow> 3 | Some n \<Rightarrow> n)
                   (case req_max_retries data of None \<Rightarrow> 80 | Some r \<Rightarrow> r) db st g of
              Raised e st' \<Rightarrow> (ServerError e, st')
            | Returned vs st' g' \<Rightarrow>
                if vs = [] then (GenerationFailed, st') else (Created vs, st')))"

text \<open>
  \<open>get_or_404\<close> aborts the request when no row has the key; the bulk update before it is
  then rolled back with the session.
\<close>

definition activate :: "int \<Rightarrow> store \<Rightarrow> response \<times> store" where
  "activate vid st =
     (case find (\<lambda>v. ver_id v = vid) (versions st) of
        None \<Rightarrow> (NotFound, st)
      | Some row \<Rightarrow> (Activated, st\<lparr>versions := activate_only vid (versions st)\<rparr>))"

section \<open>Bookkeeping of generated versions\<close>

text \<open>
  Every version in \<open>generated_versions\<close> is the row of exactly one primary key of the
  version table.
\<close>

definition once_stored :: "TimetableVersion list \<Rightarrow> store \<Rightarrow> bool" where
  "once_stored gv st =
     (\<forall>v \<in> set gv. length (filter (\<lambda>x. ver_id x = ver_id v) (versions st)) = 1)"


section \<open>Generator states with the same future\<close>

text \<open>
  Two states of the random generator from which the same numbers will be drawn, and two
  states of the search that differ in nothing but such generator states.
\<close>

definition same_draws :: "rng \<Rightarrow> rng \<Rightarrow> bool" where
  "same_draws g g' = (\<forall>i. draws g (pos g + i) = draws g' (pos g' + i))"

definition same_search :: "search_state \<Rightarrow> search_state \<Rightarrow> bool" where
  "same_search s s' =
     (empty_blocks s' = empty_blocks s \<and> teacher_busy s' = teacher_busy s
      \<and> room_busy s' = room_busy s \<and> same_draws (gen s) (gen s'))"

section \<open>Concrete instances\<close>

text \<open>A generator state whose every draw is \<open>k\<close>.\<close>

definition const_rng :: "nat \<Rightarrow> rng" where
  "const_rng k = \<lparr>draws = (\<lambda>_. k), pos = 0\<rparr>"

definition empty_store :: store where
  "empty_store = \<lparr>versions = [], entries = [], conflicts = []\<rparr>"

text \<open>
  The working week of the day template: orders 1 to 9 on five days, orders 4 and 7 being
  the breaks; the slot of day \<open>d\<close> and order \<open>k\<close> has the id \<open>10 d + k\<close>.
\<close>

definition day_slots :: "int \<times> string \<Rightarrow> TimeSlot list" where
  "day_slots d =
     map (\<lambda>k. \<lparr>slot_id = 10 * fst d + k, day_of_week = snd d, is_break = (k = 4 \<or> k = 7),
                slot_order = k\<rparr>) [1, 2, 3, 4, 5, 6, 7, 8, 9]"

definition week :: "TimeSlot list" where
  "week = concat (map day_slots
     [(1, ''Monday''), (2, ''Tuesday''), (3, ''Wednesday''), (4, ''Thursday''), (5, ''Friday'')])"

text \<open>One class with a lab subject of two lectures and a theory subject of one.\<close>

definition lab_theory_db :: instance_db where
  "lab_theory_db =
     \<lparr>classes = [\<lparr>cls_id = 1, cls_name = ''FY'', student_strength = 30\<rparr>],
      subjects = [\<lparr>sub_id = 1, sub_name = ''Physics Lab'', sub_class_id = 1,
                   lectures_per_week = 2, priority_morning = False, is_lab = True\<rparr>,
                  \<lparr>sub_id = 2, sub_name = ''Maths'', sub_class_id = 1,
                   lectures_per_week = 1, priority_morning = False, is_lab = False\<rparr>],
      teachers = [\<lparr>tch_id = 1, max_lectures_per_day = 6\<rparr>],
      rooms = [\<lparr>rm_id = 1, capacity = 40, room_type = ''classroom''\<rparr>,
               \<lparr>rm_id = 2, capacity = 40, room_type = ''lab''\<rparr>],
      teacher_subject = [\<lparr>ts_teacher_id = 1, ts_subject_id = 1\<rparr>,
                         \<lparr>ts_teacher_id = 1, ts_subject_id = 2\<rparr>],
      time_slots = week,
      availability = []\<rparr>"

text \<open>
  A stored version whose only entry sits on Monday's lunch break (slot 14), a slot for
  which the teacher is also marked unavailable.
\<close>

definition break_entry :: TimetableEntry where
  "break_entry =
     \<lparr>version_id = 1, class_id = 1, subject_id = 2, teacher_id = 1, room_id = 1,
      time_slot_id = 14, is_locked = False\<rparr>"

definition break_db :: instance_db where
  "break_db =
     lab_theory_db\<lparr>availability :=
       [\<lparr>av_teacher_id = 1, av_time_slot_id = 14, is_available = False\<rparr>]\<rparr>"

definition break_store :: store where
  "break_store =
     \<lparr>versions = [\<lparr>ver_id = 1, ver_name = ''Edited'', score = 100, created_by = 1,
                    is_active = True\<rparr>],
      entries = [break_entry],
      conflicts = []\<rparr>"

text \<open>A stored version holding the same placement twice.\<close>

definition clash_store :: store where
  "clash_store =
     \<lparr>versions = [\<lparr>ver_id = 1, ver_name = ''Edited'', score = 100, created_by = 1,
                    is_active = True\<rparr>],
      entries = [\<lparr>version_id = 1, class_id = 1, subject_id = 2, teacher_id = 1, room_id = 1,
                  time_slot_id = 11, is_locked = False\<rparr>,
                 \<lparr>version_id = 1, class_id = 1, subject_id = 2, teacher_id = 1, room_id = 1,
                  time_slot_id = 11, is_locked = True\<rparr>],
      conflicts = []\<rparr>"

text \<open>
  Incomplete set-ups: a class without subjects and a class whose subject has no teacher
  mapping.
\<close>

definition blocked_db :: instance_db where
  "blocked_db =
     \<lparr>classes = [\<lparr>cls_id = 1, cls_name = ''FY'', student_strength = 30\<rparr>,
                 \<lparr>cls_id = 2, cls_name = ''SY'', student_strength = 25\<rparr>],
      subjects = [\<lparr>sub_id = 1, sub_name = ''Maths'', sub_class_id = 2,
                   lectures_per_week = 3, priority_morning = False, is_lab = False\<rparr>],
      teachers = [\<lparr>tch_id = 1, max_lectures_per_day = 6\<rparr>],
      rooms = [\<lparr>rm_id = 1, capacity = 40, room_type = ''classroom''\<rparr>],
      teacher_subject = [],
      time_slots = week,
      availability = []\<rparr>"

text \<open>
  A lab subject with an odd number of lectures, mapped to a teacher, in an institution
  that has a classroom but no lab room.
\<close>

definition odd_lab_db :: instance_db where
  "odd_lab_db =
     \<lparr>classes = [\<lparr>cls_id = 1, cls_name = ''FY'', student_strength = 30\<rparr>],
      subjects = [\<lparr>sub_id = 1, sub_name = ''Physics Lab'', sub_class_id = 1,
                   lectures_per_week = 3, priority_morning = False, is_lab = True\<rparr>],
      teachers = [\<lparr>tch_id = 1, max_lectures_per_day = 6\<rparr>],
      rooms = [\<lparr>rm_id = 1, capacity = 40, room_type = ''classroom''\<rparr>],
      teacher_subject = [\<lparr>ts_teacher_id = 1, ts_subject_id = 1\<rparr>],
      time_slots = week,
      availability = []\<rparr>"

definition one_version :: gen_request where
  "one_version = \<lparr>req_num_versions = Some 1, req_max_retries = None\<rparr>"

text \<open>
  The blocks of a grid whose days come in the given order (the first three are the
  heavy days).
\<close>

definition blocks_of_days :: "int \<Rightarrow> string list \<Rightarrow> eblock list" where
  "blocks_of_days c days = all_blocks [(c, day_grid 0 days [])]"

definition search_start :: "eblock list \<Rightarrow> rng \<Rightarrow> search_state" where
  "search_start ebs g = \<lparr>empty_blocks = ebs, teacher_busy = {}, room_busy = {}, gen = g\<rparr>"

text \<open>A store with two versions, the first of them active.\<close>

definition two_versions :: store where
  "two_versions =
     \<lparr>versions = [\<lparr>ver_id = 1, ver_name = ''Auto Formatted 1'', score = 100, created_by = 1,
                    is_active = True\<rparr>,
                   \<lparr>ver_id = 2, ver_name = ''Auto Formatted 2'', score = 0, created_by = 1,
                    is_active = False\<rparr>],
      entries = [],
      conflicts = []\<rparr>"

text \<open>
  The smallest feasible scenario: one class of 30, one classroom of 40, one teacher, one
  theory subject of three lectures, the Monday to Friday template.
\<close>

definition small_db :: instance_db where
  "small_db =
     \<lparr>classes = [\<lparr>cls_id = 1, cls_name = ''FY'', student_strength = 30\<rparr>],
      subjects = [\<lparr>sub_id = 1, sub_name = ''Maths'', sub_class_id = 1,
                   lectures_per_week = 3, priority_morning = False, is_lab = False\<rparr>],
      teachers = [\<lparr>tch_id = 1, max_lectures_per_day = 6\<rparr>],
      rooms = [\<lparr>rm_id = 1, capacity = 40, room_type = ''classroom''\<rparr>],
      teacher_subject = [\<lparr>ts_teacher_id = 1, ts_subject_id = 1\<rparr>],
      time_slots = week,
      availability = []\<rparr>"


text \<open>A store whose three versions are all flagged active.\<close>

definition three_active :: store where
  "three_active =
     \<lparr>versions = [\<lparr>ver_id = 1, ver_name = ''Auto Formatted 1'', score = 100, created_by = 1,
                    is_active = True\<rparr>,
                   \<lparr>ver_id = 2, ver_name = ''Auto Formatted 2'', score = 0, created_by = 1,
                    is_active = True\<rparr>,
                   \<lparr>ver_id = 3, ver_name = ''Auto Formatted 3'', score = 0, created_by = 1,
                    is_active = True\<rparr>],
      entries = [],
      conflicts = []\<rparr>"


text \<open>
  An instance whose demand fills the grid of its class: fifteen theory subjects of one
  lecture (ids 1 to 15, the first with \<open>priority_morning\<close>) and eight lab subjects of two
  lectures (ids 16 to 23), all taught by teacher 1, one classroom of capacity \<open>cap\<close> and
  one lab room, for a class of 30; \<open>av\<close> is the TeacherAvailability table.
\<close>

definition full_db :: "int \<Rightarrow> TeacherAvailability list \<Rightarrow> instance_db" where
  "full_db cap av =
     \<lparr>classes = [\<lparr>cls_id = 1, cls_name = ''FY'', student_strength = 30\<rparr>],
      subjects =
        map (\<lambda>i. \<lparr>sub_id = i, sub_name = ''Theory'', sub_class_id = 1, lectures_per_week = 1,
                   priority_morning = (i = 1), is_lab = False\<rparr>)
          [1, 2, 3, 4, 5, 6, 7, 8, 9, 10, 11, 12, 13, 14, 15]
        @ map (\<lambda>i. \<lparr>sub_id = i, sub_name = ''Lab'', sub_class_id = 1, lectures_per_week = 2,
                     priority_morning = False, is_lab = True\<rparr>)
            [16, 17, 18, 19, 20, 21, 22, 23],
      teachers = [\<lparr>tch_id = 1, max_lectures_per_day = 7\<rparr>],
      rooms = [\<lparr>rm_id = 1, capacity = cap, room_type = ''classroom''\<rparr>,
               \<lparr>rm_id = 2, capacity = 40, room_type = ''lab''\<rparr>],
      teacher_subject =
        map (\<lambda>i. \<lparr>ts_teacher_id = 1, ts_subject_id = i\<rparr>)
          [1, 2, 3, 4, 5, 6, 7, 8, 9, 10, 11, 12, 13, 14, 15, 16, 17, 18, 19, 20, 21, 22, 23],
      time_slots = week,
      availability = av\<rparr>"

text \<open>
  The entry of version 1 that puts a subject of class 1, taught by teacher 1, into a
  room at a slot, and the two schedules that the search reaches on \<open>full_db\<close>: the first
  when every draw of the generator is 0, the second when every draw is 1.
\<close>

definition entry_at :: "int \<times> int \<times> int \<Rightarrow> TimetableEntry" where
  "entry_at p =
     \<lparr>version_id = 1, class_id = 1, subject_id = fst p, teacher_id = 1, room_id = fst (snd p),
      time_slot_id = snd (snd p), is_locked = False\<rparr>"

definition full_entries_0 :: "TimetableEntry list" where
  "full_entries_0 = map entry_at
     [(16, 2, 21), (16, 2, 22), (17, 2, 25), (17, 2, 26), (15, 1, 23), (1, 1, 28), (2, 1, 29),
      (18, 2, 31), (18, 2, 32), (19, 2, 35), (19, 2, 36), (3, 1, 33), (4, 1, 38), (5, 1, 39),
      (20, 2, 41), (20, 2, 42), (21, 2, 45), (21, 2, 46), (6, 1, 43), (7, 1, 48), (8, 1, 49),
      (22, 2, 51), (22, 2, 52), (9, 1, 53), (10, 1, 55), (11, 1, 56),
      (23, 2, 11), (23, 2, 12), (12, 1, 13), (13, 1, 15), (14, 1, 16)]"

definition full_entries_1 :: "TimetableEntry list" where
  "full_entries_1 = map entry_at
     [(16, 2, 11), (16, 2, 12), (18, 2, 15), (18, 2, 16), (1, 1, 13), (2, 1, 18), (3, 1, 19),
      (19, 2, 31), (19, 2, 32), (20, 2, 35), (20, 2, 36), (4, 1, 33), (5, 1, 38), (6, 1, 39),
      (21, 2, 41), (21, 2, 42), (22, 2, 45), (22, 2, 46), (7, 1, 43), (8, 1, 48), (9, 1, 49),
      (23, 2, 51), (23, 2, 52), (10, 1, 53), (11, 1, 55), (12, 1, 56),
      (17, 2, 21), (17, 2, 22), (13, 1, 23), (14, 1, 25), (15, 1, 26)]"

text \<open>The version and the store that a successful first candidate leaves behind.\<close>

definition success_version :: TimetableVersion where
  "success_version =
     \<lparr>ver_id = 1, ver_name = ''Auto Formatted 1'', score = 100, created_by = 1,
      is_active = True\<rparr>"

definition success_store :: "TimetableEntry list \<Rightarrow> store" where
  "success_store es =
     \<lparr>versions = [success_version],
      entries = es,
      conflicts = [\<lparr>cl_version_id = 1, conflict_type = ''Success'',
                    message = ''Contiguous Generation Successful''\<rparr>]\<rparr>"
section \<open>Evaluation rules\<close>

lemma shuffle_loop_numeral [simp]:
  "shuffle_loop (numeral v) xs g =
     (case randbelow (Suc (numeral v)) g of
        (j, g') \<Rightarrow> shuffle_loop (pred_numeral v) (swap (numeral v) j xs) g')"
  by (simp add: numeral_eq_Suc)

lemma shuffle_loop_one [simp]:
  "shuffle_loop 1 xs g = (case randbelow 2 g of (j, g') \<Rightarrow> (swap 1 j xs, g'))"
  using shuffle_loop.simps(2)[of 0 xs g] by (simp add: numeral_2_eq_2 split: prod.splits)

lemma replicate_numeral_Cons [simp]:
  "replicate (numeral k) x = x # replicate (pred_numeral k) x"
  by (simp add: numeral_eq_Suc)

lemma str_nat_numeral [simp]:
  "str_nat (numeral k) =
     (if (numeral k :: nat) < 10 then [''0123456789'' ! numeral k]
      else str_nat (numeral k div 10) @ [''0123456789'' ! (numeral k mod 10)])"
  by (rule str_nat.simps)

lemma str_nat_small [simp]: "str_nat 0 = ''0''" "str_nat (Suc 0) = ''1''"
  by (simp_all add: str_nat.simps)

section \<open>Demand expander\<close>

lemma insort_lab:
  "it_type x = L \<Longrightarrow> insort_key (\<lambda>x. kind_key (it_type x)) x ys = x # ys"
  by (rule insort_is_Cons) simp

lemma insort_theory:
  "it_type x = T \<Longrightarrow>
   insort_key (\<lambda>x. kind_key (it_type x)) x
     (filter (\<lambda>y. it_type y = L) ys @ filter (\<lambda>y. it_type y = T) zs)
   = filter (\<lambda>y. it_type y = L) ys @ x # filter (\<lambda>y. it_type y = T) zs"
proof (induction ys)
  case Nil
  then show ?case by (simp add: insort_is_Cons)
next
  case (Cons y ys)
  then show ?case by simp
qed

lemma sort_key_kind:
  "sort_key (\<lambda>x. kind_key (it_type x)) xs
   = filter (\<lambda>y. it_type y = L) xs @ filter (\<lambda>y. it_type y = T) xs"
proof (induction xs)
  case Nil
  then show ?case by simp
next
  case (Cons x xs)
  show ?case
  proof (cases "it_type x")
    case L
    then show ?thesis using Cons by (simp add: insort_lab)
  next
    case T
    then show ?thesis using Cons by (simp add: insort_theory)
  qed
qed

lemma sort_by_type_reverse_eq:
  "sort_by_type_reverse xs
   = filter (\<lambda>y. it_type y = T) xs @ filter (\<lambda>y. it_type y = L) xs"
  by (simp add: sort_by_type_reverse_def sort_key_kind rev_filter)

lemma theory_first_nth:
  assumes "i < j" "j < length (filter P xs @ filter (\<lambda>y. \<not> P y) xs)"
    and "\<not> P ((filter P xs @ filter (\<lambda>y. \<not> P y) xs) ! i)"
  shows "\<not> P ((filter P xs @ filter (\<lambda>y. \<not> P y) xs) ! j)"
proof -
  have "\<not> i < length (filter P xs)"
    using assms(3) nth_mem[of i "filter P xs"] by (auto simp: nth_append)
  then have "\<not> j < length (filter P xs)" using assms(1) by simp
  moreover have "j - length (filter P xs) < length (filter (\<lambda>y. \<not> P y) xs)"
    using assms(2) calculation by simp
  ultimately show ?thesis
    using nth_mem[of "j - length (filter P xs)" "filter (\<lambda>y. \<not> P y) xs"]
    by (auto simp: nth_append)
qed

text \<open>
  C5, as the code has it: the sort is by type in \<^emph>\<open>descending\<close> order, so after the
  shuffle every theory item (type T) precedes every lab item (type L): for indices
  \<open>i < j\<close> of the final item list, item \<open>i\<close> is never L while item \<open>j\<close> is T.
\<close>

theorem expand_items_theory_before_lab:
  assumes "i < j" and "j < length (fst (expand_items db g))"
  shows "\<not> (it_type (fst (expand_items db g) ! i) = L \<and> it_type (fst (expand_items db g) ! j) = T)"
proof -
  obtain shuffled g' where s: "shuffle (concat (map (class_demand (subjects db)) (classes db))) g = (shuffled, g')"
    by (cases "shuffle (concat (map (class_demand (subjects db)) (classes db))) g") auto
  have not_T: "(\<lambda>y. it_type y = L) = (\<lambda>y. \<not> it_type y = T)"
    by (rule ext) (metis kind.exhaust kind.distinct(1))
  have e: "fst (expand_items db g)
           = filter (\<lambda>y. it_type y = T) shuffled @ filter (\<lambda>y. \<not> it_type y = T) shuffled"
    using s by (simp add: expand_items_def sort_by_type_reverse_eq not_T)
  show ?thesis
    using theory_first_nth[of i j "\<lambda>y. it_type y = T" shuffled] assms unfolding e
    by auto
qed

theorem expand_items_theory_before_lab_witness:
  "(0::nat) < 1 \<and> 1 < length (fst (expand_items lab_theory_db (const_rng 0)))
   \<and> \<not> (it_type (fst (expand_items lab_theory_db (const_rng 0)) ! 0) = L
        \<and> it_type (fst (expand_items lab_theory_db (const_rng 0)) ! 1) = T)"
proof -
  have len: "1 < length (fst (expand_items lab_theory_db (const_rng 0)))"
    by (simp add: expand_items_def lab_theory_db_def const_rng_def class_demand_def
        lab_items_def theory_items_def shuffle_def randbelow_def swap_def
        sort_by_type_reverse_eq)
  show ?thesis
    using expand_items_theory_before_lab[of 0 1 lab_theory_db "const_rng 0"] len by simp
qed

text \<open>
  C5 as the spec states it (labs first) fails: for one lab subject and one theory subject
  the final list holds the theory item at index 0 and the lab item at index 1.
\<close>

theorem expand_items_labs_first_counterexample:
  "it_type (fst (expand_items lab_theory_db (const_rng 0)) ! 0) = T
   \<and> it_type (fst (expand_items lab_theory_db (const_rng 0)) ! 1) = L
   \<and> length (fst (expand_items lab_theory_db (const_rng 0))) = 2"
  by (simp add: expand_items_def lab_theory_db_def const_rng_def class_demand_def
      lab_items_def theory_items_def shuffle_def randbelow_def swap_def
      sort_by_type_reverse_eq)

section \<open>Conflict detector\<close>

lemma report_if_type:
  "ty \<in> detector_types \<Longrightarrow> \<forall>c \<in> set (report_if cond ty msg). c_type c \<in> detector_types"
  by (simp add: report_if_def)

lemma detector_types_mem:
  "''teacher_clash'' \<in> detector_types" "''room_clash'' \<in> detector_types"
  "''class_clash'' \<in> detector_types" "''subject_repeat'' \<in> detector_types"
  "''room_capacity_mismatch'' \<in> detector_types" "''teacher_overload'' \<in> detector_types"
  by (simp_all add: detector_types_def)

lemma detect_entry_types:
  assumes "detect_entry slot_of teacher_of class_of room_of e ds = Inr ds'"
    and "\<forall>c \<in> set (found ds). c_type c \<in> detector_types"
  shows "\<forall>c \<in> set (found ds'). c_type c \<in> detector_types"
proof -
  from assms(1) obtain slot room cls teacher where
    "slot_of (time_slot_id e) = Some slot" "room_of (room_id e) = Some room"
    "class_of (class_id e) = Some cls" "teacher_of (teacher_id e) = Some teacher"
    by (auto simp: detect_entry_def split: option.splits)
  with assms(1) have "\<exists>b1 m1 b2 m2 b3 m3 b4 m4 b5 m5 b6 m6.
      found ds' = found ds @ report_if b1 ''teacher_clash'' m1
        @ report_if b2 ''room_clash'' m2 @ report_if b3 ''class_clash'' m3
        @ report_if b4 ''subject_repeat'' m4 @ report_if b5 ''room_capacity_mismatch'' m5
        @ report_if b6 ''teacher_overload'' m6"
    unfolding detect_entry_def Let_def
    by (simp only: option.case sum.inject) (clarify, simp only: detect_state.select_convs, intro exI, rule refl)
  then show ?thesis
    using assms(2) report_if_type[OF detector_types_mem(1)] report_if_type[OF detector_types_mem(2)]
      report_if_type[OF detector_types_mem(3)] report_if_type[OF detector_types_mem(4)]
      report_if_type[OF detector_types_mem(5)] report_if_type[OF detector_types_mem(6)]
    by (auto simp only: set_append ball_Un)
qed

lemma detect_loop_types:
  assumes "detect_loop slot_of teacher_of class_of room_of es ds = Inr ds'"
    and "\<forall>c \<in> set (found ds). c_type c \<in> detector_types"
  shows "\<forall>c \<in> set (found ds'). c_type c \<in> detector_types"
  using assms
proof (induction es arbitrary: ds)
  case Nil
  then show ?case by simp
next
  case (Cons e es)
  from Cons.prems(1) obtain ds1 where
    step: "detect_entry slot_of teacher_of class_of room_of e ds = Inr ds1" and
    rest: "detect_loop slot_of teacher_of class_of room_of es ds1 = Inr ds'"
    by (auto split: sum.splits)
  show ?case
    by (rule Cons.IH[OF rest detect_entry_types[OF step Cons.prems(2)]])
qed

text \<open>
  C7, as the code has it: every record the conflict detector returns has one of the six
  types teacher_clash, room_clash, class_clash, subject_repeat, room_capacity_mismatch
  and teacher_overload; it reports neither teacher_unavailable nor break_slot.
\<close>

theorem detect_conflicts_types:
  assumes "detect_conflicts db st vid = Inr cs"
  shows "\<forall>c \<in> set cs. c_type c \<in> detector_types
           \<and> c_type c \<noteq> ''teacher_unavailable'' \<and> c_type c \<noteq> ''break_slot''"
proof -
  from assms obtain ds where
    loop: "detect_loop (by_id slot_id (time_slots db)) (by_id tch_id (teachers db))
             (by_id cls_id (classes db)) (by_id rm_id (rooms db))
             (filter (\<lambda>e. version_id e = vid) (entries st)) detect_start = Inr ds"
    and cs: "cs = found ds"
    by (auto simp: detect_conflicts_def split: sum.splits)
  have "\<forall>c \<in> set (found ds). c_type c \<in> detector_types"
    by (rule detect_loop_types[OF loop]) (simp add: detect_start_def)
  then show ?thesis
    unfolding cs by (auto simp: detector_types_def)
qed


lemmas db_eval =
  lab_theory_db_def break_db_def week_def day_slots_def by_id_def

lemma detect_clash_store:
  "detect_conflicts lab_theory_db clash_store 1 =
     Inr [\<lparr>c_type = ''teacher_clash'', c_message = ''Teacher clash at slot 11''\<rparr>,
          \<lparr>c_type = ''room_clash'', c_message = ''Room clash at slot 11''\<rparr>,
          \<lparr>c_type = ''class_clash'', c_message = ''Class clash at slot 11''\<rparr>,
          \<lparr>c_type = ''subject_repeat'', c_message = ''Subject repetition for class 1''\<rparr>]"
  by (simp add: detect_conflicts_def detect_entry_def detect_start_def clash_store_def
      report_if_def str_int_def db_eval Let_def)

theorem detect_conflicts_types_witness:
  "detect_conflicts lab_theory_db clash_store 1 =
     Inr [\<lparr>c_type = ''teacher_clash'', c_message = ''Teacher clash at slot 11''\<rparr>,
          \<lparr>c_type = ''room_clash'', c_message = ''Room clash at slot 11''\<rparr>,
          \<lparr>c_type = ''class_clash'', c_message = ''Class clash at slot 11''\<rparr>,
          \<lparr>c_type = ''subject_repeat'', c_message = ''Subject repetition for class 1''\<rparr>]
   \<and> ''teacher_clash'' \<in> detector_types \<and> ''room_clash'' \<in> detector_types
   \<and> ''class_clash'' \<in> detector_types \<and> ''subject_repeat'' \<in> detector_types"
  using detect_conflicts_types[OF detect_clash_store] detect_clash_store by simp

text \<open>
  C7 as the spec states it fails: the only entry of the stored version lies on a break
  slot for which its teacher is marked unavailable, and the detector reports nothing.
\<close>

theorem detect_conflicts_break_unavailable_counterexample:
  "detect_conflicts break_db break_store 1 = Inr []
   \<and> entries break_store = [break_entry] \<and> version_id break_entry = 1
   \<and> \<lparr>av_teacher_id = teacher_id break_entry, av_time_slot_id = time_slot_id break_entry,
       is_available = False\<rparr> \<in> set (availability break_db)
   \<and> \<lparr>slot_id = time_slot_id break_entry, day_of_week = ''Monday'', is_break = True,
       slot_order = 4\<rparr> \<in> set (time_slots break_db)"
  by (simp add: detect_conflicts_def detect_entry_def detect_start_def break_store_def
      break_entry_def report_if_def str_int_def db_eval Let_def)

section \<open>Pre-generation check of the generate route\<close>

lemma class_issues_no_subjects:
  "cls_subjects db c = [] \<Longrightarrow> class_issues db c = [no_subjects_issue c]"
  by (simp add: class_issues_def)

lemma class_issues_no_teacher:
  assumes "s \<in> set (cls_subjects db c)" "sub_id s \<notin> subject_ids_with_teachers db"
  shows "no_teacher_issue s c \<in> set (class_issues db c)"
proof -
  have "cls_subjects db c \<noteq> []" using assms(1) by auto
  then show ?thesis using assms by (auto simp: class_issues_def)
qed

lemma blocked_when_incomplete:
  assumes "\<exists>c \<in> set (classes db). cls_subjects db c = []
             \<or> (\<exists>s \<in> set (cls_subjects db c). sub_id s \<notin> subject_ids_with_teachers db)"
  shows "generate data identity db st g = (Blocked (setup_issues db), st)
         \<and> status_code (fst (generate data identity db st g)) = 400
         \<and> (\<forall>c \<in> set (classes db). cls_subjects db c = []
               \<longrightarrow> no_subjects_issue c \<in> set (setup_issues db))
         \<and> (\<forall>c \<in> set (classes db). \<forall>s \<in> set (cls_subjects db c).
               sub_id s \<notin> subject_ids_with_teachers db
               \<longrightarrow> no_teacher_issue s c \<in> set (setup_issues db))"
proof -
  have a: "\<forall>c \<in> set (classes db). cls_subjects db c = []
             \<longrightarrow> no_subjects_issue c \<in> set (setup_issues db)"
    by (force simp: setup_issues_def class_issues_no_subjects)
  have b: "\<forall>c \<in> set (classes db). \<forall>s \<in> set (cls_subjects db c).
             sub_id s \<notin> subject_ids_with_teachers db
             \<longrightarrow> no_teacher_issue s c \<in> set (setup_issues db)"
    using class_issues_no_teacher by (fastforce simp: setup_issues_def)
  from assms a b have "setup_issues db \<noteq> []" by fastforce
  then have "generate data identity db st g = (Blocked (setup_issues db), st)"
    by (simp add: generate_def)
  then show ?thesis using a b by simp
qed

section \<open>Stepping the search\<close>

text \<open>
  The equations of \<open>place_item\<close> and \<open>try_blocks\<close>, one rule for each way through
  the loop body, so that a concrete run can be followed step by step.
\<close>

lemma place_item_step:
  assumes "t_map cx (it_subject_id it) = Some teacher" and "teacher \<noteq> 0"
    and "shuffle (valid_blocks it (empty_blocks st)) (gen st) = (vbs, g')"
    and "try_blocks cx it rest teacher vbs (st\<lparr>gen := g'\<rparr>) = r"
  shows "place_item cx (it # rest) st = r"
  using assms by simp

lemma try_blocks_same_day:
  assumes "it_subject_id it
             \<in> set (daily_subs (it_class_id it) (eb_day (empty_blocks st ! vb)) (empty_blocks st))"
    and "try_blocks cx it rest teacher vbs st = r"
  shows "try_blocks cx it rest teacher (vb # vbs) st = r"
  using assms by simp

lemma try_blocks_teacher_busy:
  assumes "it_subject_id it
             \<notin> set (daily_subs (it_class_id it) (eb_day (empty_blocks st ! vb)) (empty_blocks st))"
    and "slot_conflict cx (eb_day (empty_blocks st ! vb)) (slots (eb_block (empty_blocks st ! vb)))
           teacher (teacher_busy st)"
    and "try_blocks cx it rest teacher vbs st = r"
  shows "try_blocks cx it rest teacher (vb # vbs) st = r"
  using assms by simp

lemma try_blocks_no_room:
  assumes "it_subject_id it
             \<notin> set (daily_subs (it_class_id it) (eb_day (empty_blocks st ! vb)) (empty_blocks st))"
    and "\<not> slot_conflict cx (eb_day (empty_blocks st ! vb))
             (slots (eb_block (empty_blocks st ! vb))) teacher (teacher_busy st)"
    and "shuffle (if it_type it = T then classrooms cx else lab_rooms cx) (gen st) = (rs, g')"
    and "pick_room cx (eb_day (empty_blocks st ! vb)) (slots (eb_block (empty_blocks st ! vb)))
           (room_busy st) rs = None"
    and "try_blocks cx it rest teacher vbs (st\<lparr>gen := g'\<rparr>) = r"
  shows "try_blocks cx it rest teacher (vb # vbs) st = r"
  using assms by (simp add: Let_def)

lemma try_blocks_placed:
  assumes "it_subject_id it
             \<notin> set (daily_subs (it_class_id it) (eb_day (empty_blocks st ! vb)) (empty_blocks st))"
    and "\<not> slot_conflict cx (eb_day (empty_blocks st ! vb))
             (slots (eb_block (empty_blocks st ! vb))) teacher (teacher_busy st)"
    and "shuffle (if it_type it = T then classrooms cx else lab_rooms cx) (gen st) = (rs, g')"
    and "pick_room cx (eb_day (empty_blocks st ! vb)) (slots (eb_block (empty_blocks st ! vb)))
           (room_busy st) rs = Some room"
    and "room \<noteq> 0"
    and "slot_ids cx (eb_day (empty_blocks st ! vb)) (slots (eb_block (empty_blocks st ! vb)))
           = Inr ids"
    and "st\<lparr>empty_blocks := set_item vb
               (Some \<lparr>p_subject_id = it_subject_id it, p_teacher_id = teacher, p_room_id = room\<rparr>)
               (empty_blocks st),
             teacher_busy := teacher_busy st \<union> set (map (Pair teacher) ids),
             room_busy := room_busy st \<union> set (map (Pair room) ids),
             gen := g'\<rparr> = st1"
    and "place_item cx rest st1 = Inr (True, st')"
  shows "try_blocks cx it rest teacher (vb # vbs) st = Inr (True, st')"
  using assms by (simp add: Let_def)

lemma valid_blocks_enumerate:
  "valid_blocks it ebs =
     map fst (filter (\<lambda>p. eb_class_id (snd p) = it_class_id it
                          \<and> btype (eb_block (snd p)) = it_type it
                          \<and> bitem (eb_block (snd p)) = None) (enumerate 0 ebs))"
proof -
  have "filter (\<lambda>i. P (ebs ! i)) [0..<length ebs]
        = map fst (filter (\<lambda>p. P (snd p)) (enumerate 0 ebs))" for P :: "eblock \<Rightarrow> bool"
  proof (induction ebs rule: rev_induct)
    case Nil
    then show ?case by simp
  next
    case (snoc x xs)
    have "filter (\<lambda>i. P ((xs @ [x]) ! i)) [0..<length xs] = filter (\<lambda>i. P (xs ! i)) [0..<length xs]"
      by (rule filter_cong) (auto simp: nth_append)
    then show ?case using snoc by (simp add: enumerate_append_eq)
  qed
  from this[of "\<lambda>b. eb_class_id b = it_class_id it \<and> btype (eb_block b) = it_type it
                      \<and> bitem (eb_block b) = None"]
  show ?thesis unfolding valid_blocks_def .
qed

declare place_item.simps [simp del] try_blocks.simps [simp del]

lemma week_slot_map:
  "build_slot_map week (''Monday'', 1) = Some 11"
  "build_slot_map week (''Monday'', 2) = Some 12"
  "build_slot_map week (''Monday'', 3) = Some 13"
  "build_slot_map week (''Monday'', 5) = Some 15"
  "build_slot_map week (''Monday'', 6) = Some 16"
  "build_slot_map week (''Monday'', 8) = Some 18"
  "build_slot_map week (''Monday'', 9) = Some 19"
  "build_slot_map week (''Tuesday'', 1) = Some 21"
  "build_slot_map week (''Tuesday'', 2) = Some 22"
  "build_slot_map week (''Tuesday'', 3) = Some 23"
  "build_slot_map week (''Tuesday'', 5) = Some 25"
  "build_slot_map week (''Tuesday'', 6) = Some 26"
  "build_slot_map week (''Tuesday'', 8) = Some 28"
  "build_slot_map week (''Tuesday'', 9) = Some 29"
  "build_slot_map week (''Wednesday'', 1) = Some 31"
  "build_slot_map week (''Wednesday'', 2) = Some 32"
  "build_slot_map week (''Wednesday'', 3) = Some 33"
  "build_slot_map week (''Wednesday'', 5) = Some 35"
  "build_slot_map week (''Wednesday'', 6) = Some 36"
  "build_slot_map week (''Wednesday'', 8) = Some 38"
  "build_slot_map week (''Wednesday'', 9) = Some 39"
  "build_slot_map week (''Thursday'', 1) = Some 41"
  "build_slot_map week (''Thursday'', 2) = Some 42"
  "build_slot_map week (''Thursday'', 3) = Some 43"
  "build_slot_map week (''Thursday'', 5) = Some 45"
  "build_slot_map week (''Thursday'', 6) = Some 46"
  "build_slot_map week (''Thursday'', 8) = Some 48"
  "build_slot_map week (''Thursday'', 9) = Some 49"
  "build_slot_map week (''Friday'', 1) = Some 51"
  "build_slot_map week (''Friday'', 2) = Some 52"
  "build_slot_map week (''Friday'', 3) = Some 53"
  "build_slot_map week (''Friday'', 5) = Some 55"
  "build_slot_map week (''Friday'', 6) = Some 56"
  "build_slot_map week (''Friday'', 8) = Some 58"
  "build_slot_map week (''Friday'', 9) = Some 59"
  by (simp_all add: build_slot_map_def week_def day_slots_def)

lemma make_ctx_sel:
  "t_map (make_ctx db) = build_t_map (teacher_subject db)"
  "slot_map (make_ctx db) = build_slot_map (time_slots db)"
  "classrooms (make_ctx db) = filter (\<lambda>r. room_type r = ''classroom'') (rooms db)"
  "lab_rooms (make_ctx db) = filter (\<lambda>r. room_type r = ''lab'') (rooms db)"
  by (simp_all add: make_ctx_def)

lemmas step_eval =
  make_ctx_sel week_slot_map build_t_map_def valid_blocks_enumerate shuffle_def
  randbelow_def swap_def daily_subs_def slot_conflict_def pick_room_def set_item_def
  blocks_of_days_def all_blocks_def grid_blocks_def heavy_day_def light_day_def
  search_start_def const_rng_def

lemma odd_lab_search:
  "\<exists>st'. place_item (make_ctx odd_lab_db) [\<lparr>it_class_id = 1, it_subject_id = 1, it_type = L\<rparr>]
           (search_start
              (blocks_of_days 1 [''Tuesday'', ''Wednesday'', ''Thursday'', ''Friday'', ''Monday''])
              \<lparr>draws = (\<lambda>_. 0), pos = 4\<rparr>)
         = Inr (False, st')"
  apply (rule exI)
  apply (rule place_item_step, (simp add: step_eval odd_lab_db_def; fail)+)
  apply (rule try_blocks_no_room, (simp add: step_eval odd_lab_db_def; fail)+)
  apply (rule try_blocks_no_room, (simp add: step_eval odd_lab_db_def; fail)+)
  apply (rule try_blocks_no_room, (simp add: step_eval odd_lab_db_def; fail)+)
  apply (rule try_blocks_no_room, (simp add: step_eval odd_lab_db_def; fail)+)
  apply (rule try_blocks_no_room, (simp add: step_eval odd_lab_db_def; fail)+)
  apply (rule try_blocks_no_room, (simp add: step_eval odd_lab_db_def; fail)+)
  apply (rule try_blocks_no_room, (simp add: step_eval odd_lab_db_def; fail)+)
  apply (rule try_blocks_no_room, (simp add: step_eval odd_lab_db_def; fail)+)
  apply (simp add: try_blocks.simps)
  done
section \<open>Stepping a candidate\<close>

lemma candidate_failed:
  assumes "expand_items db g = (class_items, g1)"
    and "build_grids (classes db) [] g1 = (class_grids, g2)"
    and "place_item (make_ctx db) class_items (search_start (all_blocks class_grids) g2)
           = Inr (False, s')"
  shows "candidate creator db index st g =
           Inr (\<lparr>ver_id = next_id (map ver_id (versions st)),
                 ver_name = ''Auto Formatted '' @ str_nat (index + 1),
                 score = 0, created_by = creator, is_active = False\<rparr>,
                \<lparr>versions = versions st @
                   [\<lparr>ver_id = next_id (map ver_id (versions st)),
                     ver_name = ''Auto Formatted '' @ str_nat (index + 1),
                     score = 0, created_by = creator, is_active = False\<rparr>],
                 entries = entries st,
                 conflicts = conflicts st @
                   [\<lparr>cl_version_id = next_id (map ver_id (versions st)),
                     conflict_type = ''generation_failed'',
                     message = ''Constraints too strict to find contiguous solution.''\<rparr>]\<rparr>,
                gen s')"
  using assms by (simp add: candidate_def search_start_def Let_def)

lemma candidate_success:
  assumes "expand_items db g = (class_items, g1)"
    and "build_grids (classes db) [] g1 = (class_grids, g2)"
    and "place_item (make_ctx db) class_items (search_start (all_blocks class_grids) g2)
           = Inr (True, s')"
    and "persist_blocks (make_ctx db) (next_id (map ver_id (versions st))) (empty_blocks s')
           = Inr es"
  shows "candidate creator db index st g =
           Inr (\<lparr>ver_id = next_id (map ver_id (versions st)),
                 ver_name = ''Auto Formatted '' @ str_nat (index + 1),
                 score = 100, created_by = creator, is_active = False\<rparr>,
                \<lparr>versions = versions st @
                   [\<lparr>ver_id = next_id (map ver_id (versions st)),
                     ver_name = ''Auto Formatted '' @ str_nat (index + 1),
                     score = 100, created_by = creator, is_active = False\<rparr>],
                 entries = entries st @ es,
                 conflicts = conflicts st @
                   [\<lparr>cl_version_id = next_id (map ver_id (versions st)),
                     conflict_type = ''Success'',
                     message = ''Contiguous Generation Successful''\<rparr>]\<rparr>,
                gen s')"
  using assms by (simp add: candidate_def search_start_def Let_def)

lemma candidate_raises:
  assumes "expand_items db g = (class_items, g1)"
    and "build_grids (classes db) [] g1 = (class_grids, g2)"
    and "place_item (make_ctx db) class_items (search_start (all_blocks class_grids) g2)
           = Inr (True, s')"
    and "persist_blocks (make_ctx db) (next_id (map ver_id (versions st))) (empty_blocks s')
           = Inl e"
  shows "candidate creator db index st g = Inl e"
  using assms by (simp add: candidate_def search_start_def Let_def)

lemma generate_timetable_one:
  assumes "candidate creator db 0 st g = Inr (v, st', g')"
  shows "generate_timetable creator 1 max_retries db st g =
           Returned [v\<lparr>is_active := True\<rparr>]
             (st'\<lparr>versions := activate_only (ver_id v) (versions st')\<rparr>) g'"
  using assms by (simp add: generate_timetable_def)

lemma generate_timetable_one_raises:
  assumes "candidate creator db 0 st g = Inl e"
  shows "generate_timetable creator 1 max_retries db st g = Raised e st"
  using assms by (simp add: generate_timetable_def)

lemmas items_eval =
  expand_items_def class_demand_def lab_items_def theory_items_def shuffle_def
  randbelow_def swap_def sort_by_type_reverse_eq const_rng_def

lemmas grids_eval =
  shuffle_def randbelow_def swap_def days_order_def const_rng_def

lemma odd_lab_candidate:
  "\<exists>g'. candidate 1 odd_lab_db 0 empty_store (const_rng 0) =
     Inr (\<lparr>ver_id = 1, ver_name = ''Auto Formatted 1'', score = 0, created_by = 1,
           is_active = False\<rparr>,
          \<lparr>versions = [\<lparr>ver_id = 1, ver_name = ''Auto Formatted 1'', score = 0,
                         created_by = 1, is_active = False\<rparr>],
           entries = [],
           conflicts = [\<lparr>cl_version_id = 1, conflict_type = ''generation_failed'',
              message = ''Constraints too strict to find contiguous solution.''\<rparr>]\<rparr>, g')"
proof -
  have i: "expand_items odd_lab_db (const_rng 0)
           = ([\<lparr>it_class_id = 1, it_subject_id = 1, it_type = L\<rparr>], const_rng 0)"
    by (simp add: items_eval odd_lab_db_def)
  have b: "build_grids (classes odd_lab_db) [] (const_rng 0)
           = ([(1, day_grid 0 [''Tuesday'', ''Wednesday'', ''Thursday'', ''Friday'', ''Monday''] [])],
              \<lparr>draws = (\<lambda>_. 0), pos = 4\<rparr>)"
    by (simp add: grids_eval odd_lab_db_def)
  from odd_lab_search obtain s' where
    s: "place_item (make_ctx odd_lab_db) [\<lparr>it_class_id = 1, it_subject_id = 1, it_type = L\<rparr>]
          (search_start
             (all_blocks [(1, day_grid 0 [''Tuesday'', ''Wednesday'', ''Thursday'', ''Friday'', ''Monday''] [])])
             \<lparr>draws = (\<lambda>_. 0), pos = 4\<rparr>) = Inr (False, s')"
    unfolding blocks_of_days_def by blast
  show ?thesis
    using candidate_failed[OF i b s, of 1 0 empty_store]
    by (simp add: empty_store_def next_id_def)
qed

text \<open>
  C8 as the spec states it fails for an odd lab subject: the instance passes the check,
  the search runs (and fails, there being no lab room), a Schedule is persisted and a
  generation_failed record is written to ConflictLog.
\<close>

theorem generate_odd_lab_counterexample:
  "is_lab (hd (subjects odd_lab_db)) \<and> lectures_per_week (hd (subjects odd_lab_db)) = 3
   \<and> setup_issues odd_lab_db = []
   \<and> status_code (fst (generate one_version 1 odd_lab_db empty_store (const_rng 0))) = 201
   \<and> map conflict_type (conflicts (snd (generate one_version 1 odd_lab_db empty_store (const_rng 0))))
       = [''generation_failed'']
   \<and> map ver_id (versions (snd (generate one_version 1 odd_lab_db empty_store (const_rng 0)))) = [1]"
proof -
  have i: "setup_issues odd_lab_db = []"
    by (simp add: odd_lab_db_def setup_issues_def class_issues_def cls_subjects_def
        subject_ids_with_teachers_def)
  from odd_lab_candidate obtain g' where
    c: "candidate 1 odd_lab_db 0 empty_store (const_rng 0) =
     Inr (\<lparr>ver_id = 1, ver_name = ''Auto Formatted 1'', score = 0, created_by = 1,
           is_active = False\<rparr>,
          \<lparr>versions = [\<lparr>ver_id = 1, ver_name = ''Auto Formatted 1'', score = 0,
                         created_by = 1, is_active = False\<rparr>],
           entries = [],
           conflicts = [\<lparr>cl_version_id = 1, conflict_type = ''generation_failed'',
              message = ''Constraints too strict to find contiguous solution.''\<rparr>]\<rparr>, g')"
    by blast
  show ?thesis
    using generate_timetable_one[OF c, of 80] i
    by (simp add: generate_def one_version_def activate_only_def odd_lab_db_def)
qed

section \<open>Selector and activation\<close>

lemma active_after_activate_only:
  "length (filter is_active (activate_only vid vs)) = length (filter (\<lambda>v. ver_id v = vid) vs)"
  by (induction vs) (auto simp: activate_only_def)

lemma count_distinct_key:
  assumes "distinct (map f xs)" and "x \<in> set xs"
  shows "length (filter (\<lambda>v. f v = f x) xs) = 1"
  using assms
proof (induction xs)
  case Nil
  then show ?case by simp
next
  case (Cons y ys)
  show ?case
  proof (cases "y = x")
    case True
    have "f x \<notin> f ` set ys" using Cons.prems(1) True by simp
    then have "\<forall>v \<in> set ys. f v \<noteq> f x" by (metis imageI)
    then have "filter (\<lambda>v. f v = f x) ys = []" by (simp add: filter_empty_conv)
    then show ?thesis using True by simp
  next
    case False
    then have "x \<in> set ys" using Cons.prems(2) by simp
    moreover have "f y \<noteq> f x" using Cons.prems(1) calculation by auto
    ultimately show ?thesis using Cons by simp
  qed
qed

lemma fold_max_ge: "(x::int) \<le> fold max xs x \<and> (\<forall>y \<in> set xs. y \<le> fold max xs x)"
proof (induction xs arbitrary: x)
  case Nil
  then show ?case by simp
next
  case (Cons a xs)
  have "max a x \<le> fold max xs (max a x)" "\<forall>y \<in> set xs. y \<le> fold max xs (max a x)"
    using Cons.IH[of "max a x"] by auto
  then show ?case by auto
qed

lemma next_id_fresh: "next_id ids \<notin> set ids"
proof (cases ids)
  case Nil
  then show ?thesis by simp
next
  case (Cons x xs)
  have "\<forall>y \<in> set (x # xs). y < fold max xs x + 1"
    using fold_max_ge[of x xs] by auto
  then show ?thesis unfolding Cons next_id_def by auto
qed

lemma candidate_versions:
  assumes "candidate creator db index st g = Inr (v, st', g')"
  shows "\<exists>v'. versions st' = versions st @ [v'] \<and> ver_id v' = ver_id v
              \<and> ver_id v = next_id (map ver_id (versions st))"
proof -
  obtain class_items g1 where e: "expand_items db g = (class_items, g1)"
    by (cases "expand_items db g") auto
  obtain class_grids g2 where b: "build_grids (classes db) [] g1 = (class_grids, g2)"
    by (cases "build_grids (classes db) [] g1") auto
  show ?thesis
  proof (cases "place_item (make_ctx db) class_items (search_start (all_blocks class_grids) g2)")
    case (Inl err)
    then have "candidate creator db index st g = Inl err"
      using e b by (simp add: candidate_def search_start_def)
    then show ?thesis using assms by simp
  next
    case (Inr res)
    obtain success s' where res: "res = (success, s')" by (cases res) auto
    show ?thesis
    proof (cases success)
      case False
      show ?thesis
        using candidate_failed[OF e b, of s' creator index st] Inr res False assms by auto
    next
      case True
      show ?thesis
      proof (cases "persist_blocks (make_ctx db) (next_id (map ver_id (versions st))) (empty_blocks s')")
        case (Inl err)
        show ?thesis
          using candidate_raises[OF e b _ Inl, of creator index] Inr res True assms by auto
      next
        case (Inr es)
        show ?thesis
          using candidate_success[OF e b _ Inr, of creator index] \<open>place_item _ _ _ = Inr res\<close>
            res True assms by auto
      qed
    qed
  qed
qed

lemma candidate_once_stored:
  assumes c: "candidate creator db index st g = Inr (v, st', g')"
    and inv: "once_stored gv st"
  shows "once_stored (gv @ [v]) st'"
proof -
  from candidate_versions[OF c] obtain v' where
    vs: "versions st' = versions st @ [v']" and id: "ver_id v' = ver_id v"
    and fresh: "ver_id v = next_id (map ver_id (versions st))"
    by blast
  have "ver_id v \<notin> ver_id ` set (versions st)"
    using next_id_fresh[of "map ver_id (versions st)"] fresh by simp
  then have "\<forall>x \<in> set (versions st). ver_id x \<noteq> ver_id v" by (metis imageI)
  then have none: "filter (\<lambda>x. ver_id x = ver_id v) (versions st) = []"
    by (simp add: filter_empty_conv)
  have old: "ver_id v' \<noteq> ver_id u" if "u \<in> set gv" for u
  proof
    assume e: "ver_id v' = ver_id u"
    have "length (filter (\<lambda>x. ver_id x = ver_id u) (versions st)) = 1"
      using inv that by (simp add: once_stored_def)
    then show False using none e id by simp
  qed
  show ?thesis
    unfolding once_stored_def vs using inv none id old
    by (auto simp: once_stored_def)
qed

lemma candidates_once_stored:
  assumes "candidates creator db idxs gv st g = Returned gv' st' g'"
    and "once_stored gv st"
  shows "once_stored gv' st' \<and> (gv \<noteq> [] \<longrightarrow> gv' \<noteq> [])"
  using assms
proof (induction idxs arbitrary: gv st g)
  case Nil
  then show ?case by simp
next
  case (Cons i idxs)
  from Cons.prems(1) obtain v st1 g1 where
    c: "candidate creator db i st g = Inr (v, st1, g1)" and
    r: "candidates creator db idxs (gv @ [v]) st1 g1 = Returned gv' st' g'"
    by (auto split: sum.splits)
  show ?case
    using Cons.IH[OF r candidate_once_stored[OF c Cons.prems(2)]] by simp
qed

lemma best_of_mem: "best_of b vs \<in> set (b # vs)"
proof (induction vs arbitrary: b)
  case Nil
  then show ?case by simp
next
  case (Cons a vs)
  show ?case
    using Cons.IH[of "if score b < score a then a else b"] by (auto split: if_splits)
qed

lemma generate_timetable_one_active:
  assumes "generate_timetable creator n r db st g = Returned vs st' g'" and "vs \<noteq> []"
  shows "length (filter is_active (versions st')) = 1"
proof -
  from assms obtain gv st1 where
    c: "candidates creator db [0..<nat n] [] st g = Returned gv st1 g'" and
    ne: "gv \<noteq> []" and
    st': "st' = st1\<lparr>versions := activate_only (ver_id (best_of (hd gv) (tl gv))) (versions st1)\<rparr>"
    unfolding generate_timetable_def Let_def
    by (auto split: gen_result.splits list.splits)
  have "once_stored gv st1"
    using candidates_once_stored[OF c] by (simp add: once_stored_def)
  moreover have "best_of (hd gv) (tl gv) \<in> set gv"
    using best_of_mem[of "hd gv" "tl gv"] ne by simp
  ultimately show ?thesis
    unfolding st' by (simp add: active_after_activate_only once_stored_def)
qed

lemma activate_one_active:
  assumes "distinct (map ver_id (versions st))" and "activate vid st = (Activated, st')"
  shows "length (filter is_active (versions st')) = 1"
proof -
  from assms(2) obtain row where
    f: "find (\<lambda>v. ver_id v = vid) (versions st) = Some row" and
    st': "st' = st\<lparr>versions := activate_only vid (versions st)\<rparr>"
    by (auto simp: activate_def split: option.splits)
  from f have "row \<in> set (versions st)" "ver_id row = vid"
    by (auto simp: find_Some_iff)
  then show ?thesis
    using count_distinct_key[OF assms(1), of row] unfolding st'
    by (simp add: active_after_activate_only)
qed

section \<open>The smallest feasible scenario\<close>

lemma small_items:
  "expand_items small_db (const_rng 0)
   = ([\<lparr>it_class_id = 1, it_subject_id = 1, it_type = T\<rparr>,
       \<lparr>it_class_id = 1, it_subject_id = 1, it_type = T\<rparr>,
       \<lparr>it_class_id = 1, it_subject_id = 1, it_type = T\<rparr>],
      \<lparr>draws = (\<lambda>_. 0), pos = 2\<rparr>)"
  by (simp add: items_eval small_db_def)

lemma small_grids:
  "build_grids (classes small_db) [] \<lparr>draws = (\<lambda>_. 0), pos = 2\<rparr>
   = ([(1, day_grid 0 [''Tuesday'', ''Wednesday'', ''Thursday'', ''Friday'', ''Monday''] [])],
      \<lparr>draws = (\<lambda>_. 0), pos = 6\<rparr>)"
  by (simp add: grids_eval small_db_def)

lemma small_search:
  "\<exists>s'. place_item (make_ctx small_db)
            [\<lparr>it_class_id = 1, it_subject_id = 1, it_type = T\<rparr>,
             \<lparr>it_class_id = 1, it_subject_id = 1, it_type = T\<rparr>,
             \<lparr>it_class_id = 1, it_subject_id = 1, it_type = T\<rparr>]
            (search_start
               (blocks_of_days 1 [''Tuesday'', ''Wednesday'', ''Thursday'', ''Friday'', ''Monday''])
               \<lparr>draws = (\<lambda>_. 0), pos = 6\<rparr>)
          = Inr (True, s')
        \<and> bitem (eb_block (hd (empty_blocks s'))) = None
        \<and> length (filter (\<lambda>b. bitem (eb_block b) \<noteq> None) (empty_blocks s')) = 3
        \<and> length (empty_blocks s') = 23
        \<and> persist_blocks (make_ctx small_db) 1 (empty_blocks s') = Inl TypeError"
  apply (rule exI)
  apply (rule conjI)
   apply (rule place_item_step, (simp add: step_eval small_db_def; fail)+)
   apply (rule try_blocks_placed, (simp add: step_eval small_db_def; fail)+)
   apply (rule place_item_step, (simp add: step_eval small_db_def; fail)+)
   apply (rule try_blocks_same_day, (simp add: step_eval small_db_def; fail))
   apply (rule try_blocks_placed, (simp add: step_eval small_db_def; fail)+)
   apply (rule place_item_step, (simp add: step_eval small_db_def; fail)+)
   apply (rule try_blocks_same_day, (simp add: step_eval small_db_def; fail))
   apply (rule try_blocks_same_day, (simp add: step_eval small_db_def; fail))
   apply (rule try_blocks_same_day, (simp add: step_eval small_db_def; fail))
   apply (rule try_blocks_placed, (simp add: step_eval small_db_def; fail)+)
   apply (rule place_item.simps(1))
  apply (simp add: step_eval small_db_def)
  done

lemma small_candidate: "candidate 1 small_db 0 empty_store (const_rng 0) = Inl TypeError"
proof -
  from small_search obtain s' where
    s: "place_item (make_ctx small_db)
          [\<lparr>it_class_id = 1, it_subject_id = 1, it_type = T\<rparr>,
           \<lparr>it_class_id = 1, it_subject_id = 1, it_type = T\<rparr>,
           \<lparr>it_class_id = 1, it_subject_id = 1, it_type = T\<rparr>]
          (search_start
             (all_blocks [(1, day_grid 0 [''Tuesday'', ''Wednesday'', ''Thursday'', ''Friday'', ''Monday''] [])])
             \<lparr>draws = (\<lambda>_. 0), pos = 6\<rparr>) = Inr (True, s')"
    and p: "persist_blocks (make_ctx small_db) 1 (empty_blocks s') = Inl TypeError"
    unfolding blocks_of_days_def by blast
  have n: "next_id (map ver_id (versions empty_store)) = 1"
    by (simp add: empty_store_def next_id_def)
  show ?thesis
    by (rule candidate_raises[OF small_items small_grids s]) (simp add: n p)
qed

text \<open>
  C10 at the smallest feasible scenario: the search places the three lectures and
  returns true while twenty of the twenty-three blocks of the grid, the first of them
  included, still hold \<open>None\<close>; the persistence loop then subscripts \<open>None\<close> and raises
  TypeError.
\<close>

theorem search_succeeds_with_empty_blocks:
  "\<exists>s'. place_item (make_ctx small_db) (fst (expand_items small_db (const_rng 0)))
           (search_start
              (all_blocks (fst (build_grids (classes small_db) []
                                  (snd (expand_items small_db (const_rng 0))))))
              (snd (build_grids (classes small_db) []
                      (snd (expand_items small_db (const_rng 0))))))
         = Inr (True, s')
       \<and> bitem (eb_block (hd (empty_blocks s'))) = None
       \<and> length (filter (\<lambda>b. bitem (eb_block b) \<noteq> None) (empty_blocks s')) = 3
       \<and> length (empty_blocks s') = 23
       \<and> persist_blocks (make_ctx small_db) 1 (empty_blocks s') = Inl TypeError"
  using small_search by (simp add: small_items small_grids blocks_of_days_def)

text \<open>
  C1 at the smallest feasible scenario (a valid instance: no lab subject, the subject has
  a teacher): the search succeeds, yet the call raises TypeError and nothing is
  persisted, so the subject with three lectures per week has no entry at all.
\<close>

theorem generate_small_scenario_raises:
  "setup_issues small_db = []
   \<and> map lectures_per_week (subjects small_db) = [3]
   \<and> generate_timetable 1 1 80 small_db empty_store (const_rng 0) = Raised TypeError empty_store
   \<and> generate one_version 1 small_db empty_store (const_rng 0)
       = (ServerError TypeError, empty_store)
   \<and> entries empty_store = []"
proof -
  have i: "setup_issues small_db = []"
    by (simp add: small_db_def setup_issues_def class_issues_def cls_subjects_def
        subject_ids_with_teachers_def)
  show ?thesis
    using generate_timetable_one_raises[OF small_candidate, of 80] i
    by (simp add: generate_def one_version_def small_db_def empty_store_def)
qed

section \<open>What the pre-generation check tests\<close>

lemma setup_issues_empty_iff:
  "setup_issues db = [] \<longleftrightarrow>
     \<not> (\<exists>c \<in> set (classes db). cls_subjects db c = []
            \<or> (\<exists>s \<in> set (cls_subjects db c). sub_id s \<notin> subject_ids_with_teachers db))"
proof
  assume e: "setup_issues db = []"
  show "\<not> (\<exists>c \<in> set (classes db). cls_subjects db c = []
            \<or> (\<exists>s \<in> set (cls_subjects db c). sub_id s \<notin> subject_ids_with_teachers db))"
  proof
    assume h: "\<exists>c \<in> set (classes db). cls_subjects db c = []
            \<or> (\<exists>s \<in> set (cls_subjects db c). sub_id s \<notin> subject_ids_with_teachers db)"
    have "(\<forall>c \<in> set (classes db). cls_subjects db c = []
               \<longrightarrow> no_subjects_issue c \<in> set (setup_issues db))
         \<and> (\<forall>c \<in> set (classes db). \<forall>s \<in> set (cls_subjects db c).
               sub_id s \<notin> subject_ids_with_teachers db
               \<longrightarrow> no_teacher_issue s c \<in> set (setup_issues db))"
      using blocked_when_incomplete[OF h] by blast
    with h e show False by auto
  qed
next
  assume n: "\<not> (\<exists>c \<in> set (classes db). cls_subjects db c = []
            \<or> (\<exists>s \<in> set (cls_subjects db c). sub_id s \<notin> subject_ids_with_teachers db))"
  have "class_issues db c = []" if "c \<in> set (classes db)" for c
    using n that by (auto simp: class_issues_def)
  then show "setup_issues db = []" by (simp add: setup_issues_def)
qed

lemma not_blocked_when_complete:
  assumes "setup_issues db = []"
  shows "generate data identity db st g =
           (case generate_timetable identity
                   (case req_num_versions data of None \<Rightarrow> 3 | Some n \<Rightarrow> n)
                   (case req_max_retries data of None \<Rightarrow> 80 | Some r \<Rightarrow> r) db st g of
              Raised e st' \<Rightarrow> (ServerError e, st')
            | Returned vs st' g' \<Rightarrow>
                if vs = [] then (GenerationFailed, st') else (Created vs, st'))"
    and "fst (generate data identity db st g) \<noteq> Blocked issues"
  using assms by (auto simp: generate_def split: gen_result.splits)

lemma no_teacher_issue_lectures [simp]:
  "no_teacher_issue (s\<lparr>lectures_per_week := x\<rparr>) c = no_teacher_issue s c"
  by (simp add: no_teacher_issue_def)

lemma setup_issues_ignores_lectures:
  "setup_issues (db\<lparr>subjects := map (\<lambda>s. s\<lparr>lectures_per_week := k s\<rparr>) (subjects db)\<rparr>)
   = setup_issues db"
proof -
  have f: "filter (\<lambda>s. sub_class_id s = cls_id c)
             (map (\<lambda>s. s\<lparr>lectures_per_week := k s\<rparr>) (subjects db))
           = map (\<lambda>s. s\<lparr>lectures_per_week := k s\<rparr>)
               (filter (\<lambda>s. sub_class_id s = cls_id c) (subjects db))" for c
    by (induction "subjects db") (simp_all add: filter_map o_def)
  have "class_issues (db\<lparr>subjects := map (\<lambda>s. s\<lparr>lectures_per_week := k s\<rparr>) (subjects db)\<rparr>) c
        = class_issues db c" for c
    by (simp add: class_issues_def cls_subjects_def f subject_ids_with_teachers_def o_def
        cong: if_cong)
  then have "class_issues (db\<lparr>subjects := map (\<lambda>s. s\<lparr>lectures_per_week := k s\<rparr>) (subjects db)\<rparr>)
             = class_issues db"
    by (rule ext)
  then show ?thesis by (simp add: setup_issues_def)
qed

text \<open>
  C8, as the code has it. (1) When a class has no subjects, or a subject of a class has
  no teacher mapping, the generate route answers 400 with the issue list before any search,
  leaves the store (Schedules, entries, ConflictLog) as it was, and the list names every
  such class and every such subject. (2) In every other case the route is not blocked and
  answers with what \<open>generate_timetable\<close> does. (3) The check does not read
  \<open>lectures_per_week\<close>: changing it in any subject leaves the issue list as it is.
  (4) For a lab subject with \<open>k\<close> lectures the expander makes \<open>k div 2\<close> lab items, floor
  division, and no theory item, whatever the parity of \<open>k\<close>.
\<close>

theorem generate_precheck:
  "((\<exists>c \<in> set (classes db). cls_subjects db c = []
        \<or> (\<exists>s \<in> set (cls_subjects db c). sub_id s \<notin> subject_ids_with_teachers db))
     \<longrightarrow> generate data identity db st g = (Blocked (setup_issues db), st)
         \<and> status_code (fst (generate data identity db st g)) = 400
         \<and> (\<forall>c \<in> set (classes db). cls_subjects db c = []
               \<longrightarrow> no_subjects_issue c \<in> set (setup_issues db))
         \<and> (\<forall>c \<in> set (classes db). \<forall>s \<in> set (cls_subjects db c).
               sub_id s \<notin> subject_ids_with_teachers db
               \<longrightarrow> no_teacher_issue s c \<in> set (setup_issues db)))
   \<and> (\<not> (\<exists>c \<in> set (classes db). cls_subjects db c = []
        \<or> (\<exists>s \<in> set (cls_subjects db c). sub_id s \<notin> subject_ids_with_teachers db))
     \<longrightarrow> setup_issues db = []
         \<and> fst (generate data identity db st g) \<noteq> Blocked issues
         \<and> generate data identity db st g =
             (case generate_timetable identity
                     (case req_num_versions data of None \<Rightarrow> 3 | Some n \<Rightarrow> n)
                     (case req_max_retries data of None \<Rightarrow> 80 | Some r \<Rightarrow> r) db st g of
                Raised e st' \<Rightarrow> (ServerError e, st')
              | Returned vs st' g' \<Rightarrow>
                  if vs = [] then (GenerationFailed, st') else (Created vs, st')))
   \<and> setup_issues (db\<lparr>subjects := map (\<lambda>s. s\<lparr>lectures_per_week := k s\<rparr>) (subjects db)\<rparr>)
       = setup_issues db
   \<and> (is_lab sub
     \<longrightarrow> length (lab_items cls sub) = nat (lectures_per_week sub div 2)
         \<and> set (lab_items cls sub)
             \<subseteq> {\<lparr>it_class_id = cls_id cls, it_subject_id = sub_id sub, it_type = L\<rparr>}
         \<and> theory_items cls sub = [])"
proof (intro conjI impI)
  assume h: "\<exists>c \<in> set (classes db). cls_subjects db c = []
        \<or> (\<exists>s \<in> set (cls_subjects db c). sub_id s \<notin> subject_ids_with_teachers db)"
  note b = blocked_when_incomplete[OF h, of data identity st g]
  show "generate data identity db st g = (Blocked (setup_issues db), st)" using b by simp
  show "status_code (fst (generate data identity db st g)) = 400" using b by simp
  show "\<forall>c \<in> set (classes db). cls_subjects db c = []
               \<longrightarrow> no_subjects_issue c \<in> set (setup_issues db)" using b by simp
  show "\<forall>c \<in> set (classes db). \<forall>s \<in> set (cls_subjects db c).
               sub_id s \<notin> subject_ids_with_teachers db
               \<longrightarrow> no_teacher_issue s c \<in> set (setup_issues db)" using b by simp
next
  assume n: "\<not> (\<exists>c \<in> set (classes db). cls_subjects db c = []
        \<or> (\<exists>s \<in> set (cls_subjects db c). sub_id s \<notin> subject_ids_with_teachers db))"
  then show e: "setup_issues db = []" by (simp only: setup_issues_empty_iff not_False_eq_True)
  show "fst (generate data identity db st g) \<noteq> Blocked issues"
    by (rule not_blocked_when_complete(2)[OF e])
  show "generate data identity db st g =
             (case generate_timetable identity
                     (case req_num_versions data of None \<Rightarrow> 3 | Some n \<Rightarrow> n)
                     (case req_max_retries data of None \<Rightarrow> 80 | Some r \<Rightarrow> r) db st g of
                Raised e st' \<Rightarrow> (ServerError e, st')
              | Returned vs st' g' \<Rightarrow>
                  if vs = [] then (GenerationFailed, st') else (Created vs, st'))"
    by (rule not_blocked_when_complete(1)[OF e])
next
  show "setup_issues (db\<lparr>subjects := map (\<lambda>s. s\<lparr>lectures_per_week := k s\<rparr>) (subjects db)\<rparr>)
       = setup_issues db"
    by (rule setup_issues_ignores_lectures)
next
  assume "is_lab sub"
  then show "length (lab_items cls sub) = nat (lectures_per_week sub div 2)"
    and "set (lab_items cls sub)
             \<subseteq> {\<lparr>it_class_id = cls_id cls, it_subject_id = sub_id sub, it_type = L\<rparr>}"
    and "theory_items cls sub = []"
    by (auto simp: lab_items_def theory_items_def)
qed

theorem generate_precheck_witness:
  "generate one_version 1 blocked_db empty_store (const_rng 0) =
     (Blocked [''Class '' @ [CHR 0x27] @ ''FY'' @ [CHR 0x27] @ '' has no subjects configured.'',
               ''Subject '' @ [CHR 0x27] @ ''Maths'' @ [CHR 0x27] @ '' in class '' @ [CHR 0x27]
                 @ ''SY'' @ [CHR 0x27] @ '' has no teacher mapping.''], empty_store)
   \<and> setup_issues odd_lab_db = []
   \<and> fst (generate one_version 1 odd_lab_db empty_store (const_rng 0)) \<noteq> Blocked []
   \<and> setup_issues (odd_lab_db\<lparr>subjects :=
         map (\<lambda>s. s\<lparr>lectures_per_week := 4\<rparr>) (subjects odd_lab_db)\<rparr>) = setup_issues odd_lab_db
   \<and> lectures_per_week (hd (subjects odd_lab_db)) = 3
   \<and> length (lab_items (hd (classes odd_lab_db)) (hd (subjects odd_lab_db))) = 1
   \<and> theory_items (hd (classes odd_lab_db)) (hd (subjects odd_lab_db)) = []"
proof -
  have h: "\<exists>c \<in> set (classes blocked_db). cls_subjects blocked_db c = []
             \<or> (\<exists>s \<in> set (cls_subjects blocked_db c).
                   sub_id s \<notin> subject_ids_with_teachers blocked_db)"
    by (simp add: blocked_db_def cls_subjects_def)
  have i: "setup_issues blocked_db =
     [''Class '' @ [CHR 0x27] @ ''FY'' @ [CHR 0x27] @ '' has no subjects configured.'',
      ''Subject '' @ [CHR 0x27] @ ''Maths'' @ [CHR 0x27] @ '' in class '' @ [CHR 0x27]
        @ ''SY'' @ [CHR 0x27] @ '' has no teacher mapping.'']"
    by (simp add: setup_issues_def class_issues_def cls_subjects_def blocked_db_def
        subject_ids_with_teachers_def no_subjects_issue_def no_teacher_issue_def)
  have n: "\<not> (\<exists>c \<in> set (classes odd_lab_db). cls_subjects odd_lab_db c = []
             \<or> (\<exists>s \<in> set (cls_subjects odd_lab_db c).
                   sub_id s \<notin> subject_ids_with_teachers odd_lab_db))"
    by (simp add: odd_lab_db_def cls_subjects_def subject_ids_with_teachers_def)
  have l: "is_lab (hd (subjects odd_lab_db))" "lectures_per_week (hd (subjects odd_lab_db)) = 3"
    by (simp_all add: odd_lab_db_def)
  note a = generate_precheck[where db = blocked_db and data = one_version and identity = 1
      and st = empty_store and g = "const_rng 0"]
  note b = generate_precheck[where db = odd_lab_db and data = one_version and identity = 1
      and st = empty_store and g = "const_rng 0" and issues = "[]" and k = "\<lambda>s. 4"
      and cls = "hd (classes odd_lab_db)" and sub = "hd (subjects odd_lab_db)"]
  have 1: "generate one_version 1 blocked_db empty_store (const_rng 0)
           = (Blocked (setup_issues blocked_db), empty_store)"
    using a h by blast
  have 2: "setup_issues odd_lab_db = []"
    "fst (generate one_version 1 odd_lab_db empty_store (const_rng 0)) \<noteq> Blocked []"
    using b n by blast+
  have 3: "setup_issues (odd_lab_db\<lparr>subjects :=
         map (\<lambda>s. s\<lparr>lectures_per_week := 4\<rparr>) (subjects odd_lab_db)\<rparr>) = setup_issues odd_lab_db"
    using b by blast
  have 4: "length (lab_items (hd (classes odd_lab_db)) (hd (subjects odd_lab_db)))
           = nat (lectures_per_week (hd (subjects odd_lab_db)) div 2)"
    "theory_items (hd (classes odd_lab_db)) (hd (subjects odd_lab_db)) = []"
    using b l(1) by blast+
  show ?thesis
    using 1 2 3 4 l(2) by (simp add: i)
qed

section \<open>Exactly one active version\<close>

lemma candidates_length:
  assumes "candidates creator db idxs gv st g = Returned gv' st' g'"
  shows "length gv' = length gv + length idxs"
  using assms
proof (induction idxs arbitrary: gv st g)
  case Nil
  then show ?case by simp
next
  case (Cons i idxs)
  from Cons.prems obtain v st1 g1 where
    "candidates creator db idxs (gv @ [v]) st1 g1 = Returned gv' st' g'"
    by (auto split: sum.splits)
  from Cons.IH[OF this] show ?case by simp
qed

lemma generate_timetable_nonempty:
  assumes "generate_timetable creator n r db st g = Returned vs st' g'" and "0 < n"
  shows "vs \<noteq> []"
proof -
  from assms(1) obtain gv st1 where
    c: "candidates creator db [0..<nat n] [] st g = Returned gv st1 g'" and
    l: "length vs = length gv"
    unfolding generate_timetable_def Let_def
    by (auto split: gen_result.splits list.splits)
  from candidates_length[OF c] assms(2) l show ?thesis by auto
qed

lemma activate_held:
  assumes "vid \<in> set (map ver_id (versions st))"
  shows "activate vid st = (Activated, st\<lparr>versions := activate_only vid (versions st)\<rparr>)"
proof -
  from assms have "find (\<lambda>v. ver_id v = vid) (versions st) \<noteq> None"
    by (auto simp: find_None_iff)
  then show ?thesis by (auto simp: activate_def)
qed

lemma active_ids_after_activate_only:
  "map ver_id (filter is_active (activate_only vid vs))
   = replicate (length (filter (\<lambda>v. ver_id v = vid) vs)) vid"
  by (induction vs) (auto simp: activate_only_def)

text \<open>
  C9: \<open>activate\<close> completes for every id the version table holds (primary keys being
  distinct) and the one active row is then the row of that id; whenever \<open>activate\<close>
  has completed, and whenever \<open>generate_timetable\<close> has returned a non-empty candidate
  list (it does so whenever it returns with \<open>num_versions\<close> at least 1), exactly one
  TimetableVersion of the store has \<open>is_active = true\<close>.
\<close>

theorem exactly_one_active:
  "(distinct (map ver_id (versions st)) \<and> vid \<in> set (map ver_id (versions st))
      \<longrightarrow> fst (activate vid st) = Activated
          \<and> length (filter is_active (versions (snd (activate vid st)))) = 1
          \<and> map ver_id (filter is_active (versions (snd (activate vid st)))) = [vid])
   \<and> (distinct (map ver_id (versions st)) \<and> activate vid st = (Activated, st')
      \<longrightarrow> length (filter is_active (versions st')) = 1)
   \<and> (generate_timetable creator n r db st0 g = Returned vs st1 g1 \<and> vs \<noteq> []
      \<longrightarrow> length (filter is_active (versions st1)) = 1)
   \<and> (generate_timetable creator n r db st0 g = Returned vs st1 g1 \<and> 0 < n
      \<longrightarrow> vs \<noteq> [] \<and> length (filter is_active (versions st1)) = 1)"
proof (intro conjI impI)
  assume a: "distinct (map ver_id (versions st)) \<and> vid \<in> set (map ver_id (versions st))"
  then have h: "activate vid st = (Activated, st\<lparr>versions := activate_only vid (versions st)\<rparr>)"
    by (simp add: activate_held)
  then show "fst (activate vid st) = Activated" by simp
  have one: "length (filter is_active (versions (snd (activate vid st)))) = 1"
    using activate_one_active[of st vid] a h by simp
  then show "length (filter is_active (versions (snd (activate vid st)))) = 1" .
  from one show "map ver_id (filter is_active (versions (snd (activate vid st)))) = [vid]"
    unfolding h by (simp add: active_ids_after_activate_only active_after_activate_only)
next
  assume "distinct (map ver_id (versions st)) \<and> activate vid st = (Activated, st')"
  then show "length (filter is_active (versions st')) = 1"
    using activate_one_active by blast
next
  assume "generate_timetable creator n r db st0 g = Returned vs st1 g1 \<and> vs \<noteq> []"
  then show "length (filter is_active (versions st1)) = 1"
    using generate_timetable_one_active by blast
next
  assume a: "generate_timetable creator n r db st0 g = Returned vs st1 g1 \<and> 0 < n"
  then show ne: "vs \<noteq> []" using generate_timetable_nonempty by blast
  then show "length (filter is_active (versions st1)) = 1"
    using a generate_timetable_one_active by blast
qed

lemma odd_lab_candidate_in:
  "\<exists>g'. candidate 1 odd_lab_db 0 st (const_rng 0) =
     Inr (\<lparr>ver_id = next_id (map ver_id (versions st)), ver_name = ''Auto Formatted 1'',
           score = 0, created_by = 1, is_active = False\<rparr>,
          \<lparr>versions = versions st @
             [\<lparr>ver_id = next_id (map ver_id (versions st)), ver_name = ''Auto Formatted 1'',
               score = 0, created_by = 1, is_active = False\<rparr>],
           entries = entries st,
           conflicts = conflicts st @
             [\<lparr>cl_version_id = next_id (map ver_id (versions st)),
               conflict_type = ''generation_failed'',
               message = ''Constraints too strict to find contiguous solution.''\<rparr>]\<rparr>, g')"
proof -
  have i: "expand_items odd_lab_db (const_rng 0)
           = ([\<lparr>it_class_id = 1, it_subject_id = 1, it_type = L\<rparr>], const_rng 0)"
    by (simp add: items_eval odd_lab_db_def)
  have b: "build_grids (classes odd_lab_db) [] (const_rng 0)
           = ([(1, day_grid 0 [''Tuesday'', ''Wednesday'', ''Thursday'', ''Friday'', ''Monday''] [])],
              \<lparr>draws = (\<lambda>_. 0), pos = 4\<rparr>)"
    by (simp add: grids_eval odd_lab_db_def)
  from odd_lab_search obtain s' where
    s: "place_item (make_ctx odd_lab_db) [\<lparr>it_class_id = 1, it_subject_id = 1, it_type = L\<rparr>]
          (search_start
             (all_blocks [(1, day_grid 0 [''Tuesday'', ''Wednesday'', ''Thursday'', ''Friday'', ''Monday''] [])])
             \<lparr>draws = (\<lambda>_. 0), pos = 4\<rparr>) = Inr (False, s')"
    unfolding blocks_of_days_def by blast
  show ?thesis
    using candidate_failed[OF i b s, of 1 0 st] by simp
qed

theorem exactly_one_active_witness:
  "map is_active (versions three_active) = [True, True, True]
   \<and> fst (activate 2 three_active) = Activated
   \<and> map is_active (versions (snd (activate 2 three_active))) = [False, True, False]
   \<and> length (filter is_active (versions (snd (activate 2 three_active)))) = 1
   \<and> map is_active (versions two_versions) = [True, False]
   \<and> (case generate_timetable 1 1 80 odd_lab_db two_versions (const_rng 0) of
         Raised e s \<Rightarrow> False
       | Returned vs st1 g1 \<Rightarrow>
           map ver_id vs = [3]
           \<and> map ver_id (versions st1) = [1, 2, 3]
           \<and> map is_active (versions st1) = [False, False, True]
           \<and> length (filter is_active (versions st1)) = 1)"
proof -
  have d: "distinct (map ver_id (versions three_active)) \<and> 2 \<in> set (map ver_id (versions three_active))"
    by (simp add: three_active_def)
  have h: "activate 2 three_active
           = (Activated, three_active\<lparr>versions := activate_only 2 (versions three_active)\<rparr>)"
    by (rule activate_held) (simp add: three_active_def)
  have a: "fst (activate 2 three_active) = Activated"
    "length (filter is_active (versions (snd (activate 2 three_active)))) = 1"
    using exactly_one_active[where st = three_active and vid = 2] d by blast+
  have f: "map is_active (versions (snd (activate 2 three_active))) = [False, True, False]"
    unfolding h by (simp add: three_active_def activate_only_def)
  have n: "next_id (map ver_id (versions two_versions)) = 3"
    by (simp add: two_versions_def next_id_def)
  from odd_lab_candidate_in[of two_versions] obtain g' where
    c: "candidate 1 odd_lab_db 0 two_versions (const_rng 0) =
     Inr (\<lparr>ver_id = 3, ver_name = ''Auto Formatted 1'',
           score = 0, created_by = 1, is_active = False\<rparr>,
          \<lparr>versions = versions two_versions @
             [\<lparr>ver_id = 3, ver_name = ''Auto Formatted 1'',
               score = 0, created_by = 1, is_active = False\<rparr>],
           entries = entries two_versions,
           conflicts = conflicts two_versions @
             [\<lparr>cl_version_id = 3,
               conflict_type = ''generation_failed'',
               message = ''Constraints too strict to find contiguous solution.''\<rparr>]\<rparr>, g')"
    unfolding n by blast
  define v where "v = \<lparr>ver_id = 3, ver_name = ''Auto Formatted 1'', score = 0,
      created_by = (1::int), is_active = True\<rparr>"
  define st1 where "st1 = \<lparr>versions = activate_only 3 (versions two_versions @
             [\<lparr>ver_id = 3, ver_name = ''Auto Formatted 1'',
               score = 0, created_by = 1, is_active = False\<rparr>]),
           entries = entries two_versions,
           conflicts = conflicts two_versions @
             [\<lparr>cl_version_id = 3,
               conflict_type = ''generation_failed'',
               message = ''Constraints too strict to find contiguous solution.''\<rparr>]\<rparr>"
  have r: "generate_timetable 1 1 80 odd_lab_db two_versions (const_rng 0) = Returned [v] st1 g'"
    using generate_timetable_one[OF c, of 80] by (simp add: v_def st1_def)
  have one: "length (filter is_active (versions st1)) = 1"
    using exactly_one_active[where creator = 1 and n = 1 and r = 80 and db = odd_lab_db
        and ?st0.0 = two_versions and g = "const_rng 0" and vs = "[v]" and ?st1.0 = st1
        and ?g1.0 = g'] r
    by simp
  have s: "ver_id v = 3" "map ver_id (versions st1) = [1, 2, 3]"
    "map is_active (versions st1) = [False, False, True]"
    by (simp_all add: v_def st1_def two_versions_def activate_only_def)
  show ?thesis
    using a f r one s
    by (simp add: three_active_def two_versions_def)
qed

section \<open>An instance that fills the grid\<close>

lemma full_ctx:
  "classrooms (make_ctx (full_db cap av)) = [\<lparr>rm_id = 1, capacity = cap, room_type = ''classroom''\<rparr>]"
  "lab_rooms (make_ctx (full_db cap av)) = [\<lparr>rm_id = 2, capacity = 40, room_type = ''lab''\<rparr>]"
  "slot_map (make_ctx (full_db cap av)) = build_slot_map week"
  by (simp_all add: make_ctx_def full_db_def)

lemma full_t_map:
  "t_map (make_ctx (full_db cap av)) 1 = Some 1"
  "t_map (make_ctx (full_db cap av)) 2 = Some 1"
  "t_map (make_ctx (full_db cap av)) 3 = Some 1"
  "t_map (make_ctx (full_db cap av)) 4 = Some 1"
  "t_map (make_ctx (full_db cap av)) 5 = Some 1"
  "t_map (make_ctx (full_db cap av)) 6 = Some 1"
  "t_map (make_ctx (full_db cap av)) 7 = Some 1"
  "t_map (make_ctx (full_db cap av)) 8 = Some 1"
  "t_map (make_ctx (full_db cap av)) 9 = Some 1"
  "t_map (make_ctx (full_db cap av)) 10 = Some 1"
  "t_map (make_ctx (full_db cap av)) 11 = Some 1"
  "t_map (make_ctx (full_db cap av)) 12 = Some 1"
  "t_map (make_ctx (full_db cap av)) 13 = Some 1"
  "t_map (make_ctx (full_db cap av)) 14 = Some 1"
  "t_map (make_ctx (full_db cap av)) 15 = Some 1"
  "t_map (make_ctx (full_db cap av)) 16 = Some 1"
  "t_map (make_ctx (full_db cap av)) 17 = Some 1"
  "t_map (make_ctx (full_db cap av)) 18 = Some 1"
  "t_map (make_ctx (full_db cap av)) 19 = Some 1"
  "t_map (make_ctx (full_db cap av)) 20 = Some 1"
  "t_map (make_ctx (full_db cap av)) 21 = Some 1"
  "t_map (make_ctx (full_db cap av)) 22 = Some 1"
  "t_map (make_ctx (full_db cap av)) 23 = Some 1"
  by (simp_all add: make_ctx_def full_db_def build_t_map_def)

lemmas full_eval =
  full_ctx full_t_map week_slot_map valid_blocks_enumerate shuffle_def
  randbelow_def swap_def daily_subs_def slot_conflict_def pick_room_def set_item_def
  blocks_of_days_def all_blocks_def grid_blocks_def heavy_day_def light_day_def
  search_start_def

lemma full_items_0:
  "expand_items (full_db cap av) (const_rng 0)
   = ([\<lparr>it_class_id = 1, it_subject_id = 1, it_type = T\<rparr>,
       \<lparr>it_class_id = 1, it_subject_id = 2, it_type = T\<rparr>,
       \<lparr>it_class_id = 1, it_subject_id = 3, it_type = T\<rparr>,
       \<lparr>it_class_id = 1, it_subject_id = 4, it_type = T\<rparr>,
       \<lparr>it_class_id = 1, it_subject_id = 5, it_type = T\<rparr>,
       \<lparr>it_class_id = 1, it_subject_id = 6, it_type = T\<rparr>,
       \<lparr>it_class_id = 1, it_subject_id = 7, it_type = T\<rparr>,
       \<lparr>it_class_id = 1, it_subject_id = 8, it_type = T\<rparr>,
       \<lparr>it_class_id = 1, it_subject_id = 9, it_type = T\<rparr>,
       \<lparr>it_class_id = 1, it_subject_id = 10, it_type = T\<rparr>,
       \<lparr>it_class_id = 1, it_subject_id = 11, it_type = T\<rparr>,
       \<lparr>it_class_id = 1, it_subject_id = 12, it_type = T\<rparr>,
       \<lparr>it_class_id = 1, it_subject_id = 13, it_type = T\<rparr>,
       \<lparr>it_class_id = 1, it_subject_id = 14, it_type = T\<rparr>,
       \<lparr>it_class_id = 1, it_subject_id = 15, it_type = T\<rparr>,
       \<lparr>it_class_id = 1, it_subject_id = 17, it_type = L\<rparr>,
       \<lparr>it_class_id = 1, it_subject_id = 18, it_type = L\<rparr>,
       \<lparr>it_class_id = 1, it_subject_id = 19, it_type = L\<rparr>,
       \<lparr>it_class_id = 1, it_subject_id = 20, it_type = L\<rparr>,
       \<lparr>it_class_id = 1, it_subject_id = 21, it_type = L\<rparr>,
       \<lparr>it_class_id = 1, it_subject_id = 22, it_type = L\<rparr>,
       \<lparr>it_class_id = 1, it_subject_id = 23, it_type = L\<rparr>,
       \<lparr>it_class_id = 1, it_subject_id = 16, it_type = L\<rparr>],
      \<lparr>draws = (\<lambda>_. 0), pos = 22\<rparr>)"
  by (simp add: items_eval full_db_def)

lemma full_grids_0:
  "build_grids (classes (full_db cap av)) [] \<lparr>draws = (\<lambda>_. 0), pos = 22\<rparr>
   = ([(1, day_grid 0 [''Tuesday'', ''Wednesday'', ''Thursday'', ''Friday'', ''Monday''] [])],
      \<lparr>draws = (\<lambda>_. 0), pos = 26\<rparr>)"
  by (simp add: grids_eval full_db_def)

lemma full_search_0:
  "\<exists>s'. place_item (make_ctx (full_db cap av))
      [\<lparr>it_class_id = 1, it_subject_id = 1, it_type = T\<rparr>,
       \<lparr>it_class_id = 1, it_subject_id = 2, it_type = T\<rparr>,
       \<lparr>it_class_id = 1, it_subject_id = 3, it_type = T\<rparr>,
       \<lparr>it_class_id = 1, it_subject_id = 4, it_type = T\<rparr>,
       \<lparr>it_class_id = 1, it_subject_id = 5, it_type = T\<rparr>,
       \<lparr>it_class_id = 1, it_subject_id = 6, it_type = T\<rparr>,
       \<lparr>it_class_id = 1, it_subject_id = 7, it_type = T\<rparr>,
       \<lparr>it_class_id = 1, it_subject_id = 8, it_type = T\<rparr>,
       \<lparr>it_class_id = 1, it_subject_id = 9, it_type = T\<rparr>,
       \<lparr>it_class_id = 1, it_subject_id = 10, it_type = T\<rparr>,
       \<lparr>it_class_id = 1, it_subject_id = 11, it_type = T\<rparr>,
       \<lparr>it_class_id = 1, it_subject_id = 12, it_type = T\<rparr>,
       \<lparr>it_class_id = 1, it_subject_id = 13, it_type = T\<rparr>,
       \<lparr>it_class_id = 1, it_subject_id = 14, it_type = T\<rparr>,
       \<lparr>it_class_id = 1, it_subject_id = 15, it_type = T\<rparr>,
       \<lparr>it_class_id = 1, it_subject_id = 17, it_type = L\<rparr>,
       \<lparr>it_class_id = 1, it_subject_id = 18, it_type = L\<rparr>,
       \<lparr>it_class_id = 1, it_subject_id = 19, it_type = L\<rparr>,
       \<lparr>it_class_id = 1, it_subject_id = 20, it_type = L\<rparr>,
       \<lparr>it_class_id = 1, it_subject_id = 21, it_type = L\<rparr>,
       \<lparr>it_class_id = 1, it_subject_id = 22, it_type = L\<rparr>,
       \<lparr>it_class_id = 1, it_subject_id = 23, it_type = L\<rparr>,
       \<lparr>it_class_id = 1, it_subject_id = 16, it_type = L\<rparr>]
      (search_start
         (blocks_of_days 1 [''Tuesday'', ''Wednesday'', ''Thursday'', ''Friday'', ''Monday''])
         \<lparr>draws = (\<lambda>_. 0), pos = 26\<rparr>)
    = Inr (True, s')
    \<and> persist_blocks (make_ctx (full_db cap av)) 1 (empty_blocks s') = Inr full_entries_0"
  apply (rule exI)
  apply (rule conjI)
   apply (rule place_item_step, (simp add: full_eval; fail)+)
   apply (rule try_blocks_placed, (simp add: full_eval; fail)+)
   apply (rule place_item_step, (simp add: full_eval; fail)+)
   apply (rule try_blocks_placed, (simp add: full_eval; fail)+)
   apply (rule place_item_step, (simp add: full_eval; fail)+)
   apply (rule try_blocks_placed, (simp add: full_eval; fail)+)
   apply (rule place_item_step, (simp add: full_eval; fail)+)
   apply (rule try_blocks_placed, (simp add: full_eval; fail)+)
   apply (rule place_item_step, (simp add: full_eval; fail)+)
   apply (rule try_blocks_placed, (simp add: full_eval; fail)+)
   apply (rule place_item_step, (simp add: full_eval; fail)+)
   apply (rule try_blocks_placed, (simp add: full_eval; fail)+)
   apply (rule place_item_step, (simp add: full_eval; fail)+)
   apply (rule try_blocks_placed, (simp add: full_eval; fail)+)
   apply (rule place_item_step, (simp add: full_eval; fail)+)
   apply (rule try_blocks_placed, (simp add: full_eval; fail)+)
   apply (rule place_item_step, (simp add: full_eval; fail)+)
   apply (rule try_blocks_placed, (simp add: full_eval; fail)+)
   apply (rule place_item_step, (simp add: full_eval; fail)+)
   apply (rule try_blocks_placed, (simp add: full_eval; fail)+)
   apply (rule place_item_step, (simp add: full_eval; fail)+)
   apply (rule try_blocks_placed, (simp add: full_eval; fail)+)
   apply (rule place_item_step, (simp add: full_eval; fail)+)
   apply (rule try_blocks_placed, (simp add: full_eval; fail)+)
   apply (rule place_item_step, (simp add: full_eval; fail)+)
   apply (rule try_blocks_placed, (simp add: full_eval; fail)+)
   apply (rule place_item_step, (simp add: full_eval; fail)+)
   apply (rule try_blocks_placed, (simp add: full_eval; fail)+)
   apply (rule place_item_step, (simp add: full_eval; fail)+)
   apply (rule try_blocks_placed, (simp add: full_eval; fail)+)
   apply (rule place_item_step, (simp add: full_eval; fail)+)
   apply (rule try_blocks_placed, (simp add: full_eval; fail)+)
   apply (rule place_item_step, (simp add: full_eval; fail)+)
   apply (rule try_blocks_placed, (simp add: full_eval; fail)+)
   apply (rule place_item_step, (simp add: full_eval; fail)+)
   apply (rule try_blocks_placed, (simp add: full_eval; fail)+)
   apply (rule place_item_step, (simp add: full_eval; fail)+)
   apply (rule try_blocks_placed, (simp add: full_eval; fail)+)
   apply (rule place_item_step, (simp add: full_eval; fail)+)
   apply (rule try_blocks_placed, (simp add: full_eval; fail)+)
   apply (rule place_item_step, (simp add: full_eval; fail)+)
   apply (rule try_blocks_placed, (simp add: full_eval; fail)+)
   apply (rule place_item_step, (simp add: full_eval; fail)+)
   apply (rule try_blocks_placed, (simp add: full_eval; fail)+)
   apply (rule place_item_step, (simp add: full_eval; fail)+)
   apply (rule try_blocks_placed, (simp add: full_eval; fail)+)
   apply (rule place_item.simps(1))
  apply (simp add: full_eval full_entries_0_def entry_at_def)
  done

lemma full_items_1:
  "expand_items (full_db cap av) (const_rng 1)
   = ([\<lparr>it_class_id = 1, it_subject_id = 1, it_type = T\<rparr>,
       \<lparr>it_class_id = 1, it_subject_id = 2, it_type = T\<rparr>,
       \<lparr>it_class_id = 1, it_subject_id = 3, it_type = T\<rparr>,
       \<lparr>it_class_id = 1, it_subject_id = 4, it_type = T\<rparr>,
       \<lparr>it_class_id = 1, it_subject_id = 5, it_type = T\<rparr>,
       \<lparr>it_class_id = 1, it_subject_id = 6, it_type = T\<rparr>,
       \<lparr>it_class_id = 1, it_subject_id = 7, it_type = T\<rparr>,
       \<lparr>it_class_id = 1, it_subject_id = 8, it_type = T\<rparr>,
       \<lparr>it_class_id = 1, it_subject_id = 9, it_type = T\<rparr>,
       \<lparr>it_class_id = 1, it_subject_id = 10, it_type = T\<rparr>,
       \<lparr>it_class_id = 1, it_subject_id = 11, it_type = T\<rparr>,
       \<lparr>it_class_id = 1, it_subject_id = 12, it_type = T\<rparr>,
       \<lparr>it_class_id = 1, it_subject_id = 13, it_type = T\<rparr>,
       \<lparr>it_class_id = 1, it_subject_id = 14, it_type = T\<rparr>,
       \<lparr>it_class_id = 1, it_subject_id = 15, it_type = T\<rparr>,
       \<lparr>it_class_id = 1, it_subject_id = 16, it_type = L\<rparr>,
       \<lparr>it_class_id = 1, it_subject_id = 18, it_type = L\<rparr>,
       \<lparr>it_class_id = 1, it_subject_id = 19, it_type = L\<rparr>,
       \<lparr>it_class_id = 1, it_subject_id = 20, it_type = L\<rparr>,
       \<lparr>it_class_id = 1, it_subject_id = 21, it_type = L\<rparr>,
       \<lparr>it_class_id = 1, it_subject_id = 22, it_type = L\<rparr>,
       \<lparr>it_class_id = 1, it_subject_id = 23, it_type = L\<rparr>,
       \<lparr>it_class_id = 1, it_subject_id = 17, it_type = L\<rparr>],
      \<lparr>draws = (\<lambda>_. 1), pos = 22\<rparr>)"
  by (simp add: items_eval full_db_def)

lemma full_grids_1:
  "build_grids (classes (full_db cap av)) [] \<lparr>draws = (\<lambda>_. 1), pos = 22\<rparr>
   = ([(1, day_grid 0 [''Monday'', ''Wednesday'', ''Thursday'', ''Friday'', ''Tuesday''] [])],
      \<lparr>draws = (\<lambda>_. 1), pos = 26\<rparr>)"
  by (simp add: grids_eval full_db_def)

lemma full_search_1:
  "\<exists>s'. place_item (make_ctx (full_db cap av))
      [\<lparr>it_class_id = 1, it_subject_id = 1, it_type = T\<rparr>,
       \<lparr>it_class_id = 1, it_subject_id = 2, it_type = T\<rparr>,
       \<lparr>it_class_id = 1, it_subject_id = 3, it_type = T\<rparr>,
       \<lparr>it_class_id = 1, it_subject_id = 4, it_type = T\<rparr>,
       \<lparr>it_class_id = 1, it_subject_id = 5, it_type = T\<rparr>,
       \<lparr>it_class_id = 1, it_subject_id = 6, it_type = T\<rparr>,
       \<lparr>it_class_id = 1, it_subject_id = 7, it_type = T\<rparr>,
       \<lparr>it_class_id = 1, it_subject_id = 8, it_type = T\<rparr>,
       \<lparr>it_class_id = 1, it_subject_id = 9, it_type = T\<rparr>,
       \<lparr>it_class_id = 1, it_subject_id = 10, it_type = T\<rparr>,
       \<lparr>it_class_id = 1, it_subject_id = 11, it_type = T\<rparr>,
       \<lparr>it_class_id = 1, it_subject_id = 12, it_type = T\<rparr>,
       \<lparr>it_class_id = 1, it_subject_id = 13, it_type = T\<rparr>,
       \<lparr>it_class_id = 1, it_subject_id = 14, it_type = T\<rparr>,
       \<lparr>it_class_id = 1, it_subject_id = 15, it_type = T\<rparr>,
       \<lparr>it_class_id = 1, it_subject_id = 16, it_type = L\<rparr>,
       \<lparr>it_class_id = 1, it_subject_id = 18, it_type = L\<rparr>,
       \<lparr>it_class_id = 1, it_subject_id = 19, it_type = L\<rparr>,
       \<lparr>it_class_id = 1, it_subject_id = 20, it_type = L\<rparr>,
       \<lparr>it_class_id = 1, it_subject_id = 21, it_type = L\<rparr>,
       \<lparr>it_class_id = 1, it_subject_id = 22, it_type = L\<rparr>,
       \<lparr>it_class_id = 1, it_subject_id = 23, it_type = L\<rparr>,
       \<lparr>it_class_id = 1, it_subject_id = 17, it_type = L\<rparr>]
      (search_start
         (blocks_of_days 1 [''Monday'', ''Wednesday'', ''Thursday'', ''Friday'', ''Tuesday''])
         \<lparr>draws = (\<lambda>_. 1), pos = 26\<rparr>)
    = Inr (True, s')
    \<and> persist_blocks (make_ctx (full_db cap av)) 1 (empty_blocks s') = Inr full_entries_1"
  apply (rule exI)
  apply (rule conjI)
   apply (rule place_item_step, (simp add: full_eval; fail)+)
   apply (rule try_blocks_placed, (simp add: full_eval; fail)+)
   apply (rule place_item_step, (simp add: full_eval; fail)+)
   apply (rule try_blocks_placed, (simp add: full_eval; fail)+)
   apply (rule place_item_step, (simp add: full_eval; fail)+)
   apply (rule try_blocks_placed, (simp add: full_eval; fail)+)
   apply (rule place_item_step, (simp add: full_eval; fail)+)
   apply (rule try_blocks_placed, (simp add: full_eval; fail)+)
   apply (rule place_item_step, (simp add: full_eval; fail)+)
   apply (rule try_blocks_placed, (simp add: full_eval; fail)+)
   apply (rule place_item_step, (simp add: full_eval; fail)+)
   apply (rule try_blocks_placed, (simp add: full_eval; fail)+)
   apply (rule place_item_step, (simp add: full_eval; fail)+)
   apply (rule try_blocks_placed, (simp add: full_eval; fail)+)
   apply (rule place_item_step, (simp add: full_eval; fail)+)
   apply (rule try_blocks_placed, (simp add: full_eval; fail)+)
   apply (rule place_item_step, (simp add: full_eval; fail)+)
   apply (rule try_blocks_placed, (simp add: full_eval; fail)+)
   apply (rule place_item_step, (simp add: full_eval; fail)+)
   apply (rule try_blocks_placed, (simp add: full_eval; fail)+)
   apply (rule place_item_step, (simp add: full_eval; fail)+)
   apply (rule try_blocks_placed, (simp add: full_eval; fail)+)
   apply (rule place_item_step, (simp add: full_eval; fail)+)
   apply (rule try_blocks_placed, (simp add: full_eval; fail)+)
   apply (rule place_item_step, (simp add: full_eval; fail)+)
   apply (rule try_blocks_placed, (simp add: full_eval; fail)+)
   apply (rule place_item_step, (simp add: full_eval; fail)+)
   apply (rule try_blocks_placed, (simp add: full_eval; fail)+)
   apply (rule place_item_step, (simp add: full_eval; fail)+)
   apply (rule try_blocks_placed, (simp add: full_eval; fail)+)
   apply (rule place_item_step, (simp add: full_eval; fail)+)
   apply (rule try_blocks_placed, (simp add: full_eval; fail)+)
   apply (rule place_item_step, (simp add: full_eval; fail)+)
   apply (rule try_blocks_placed, (simp add: full_eval; fail)+)
   apply (rule place_item_step, (simp add: full_eval; fail)+)
   apply (rule try_blocks_placed, (simp add: full_eval; fail)+)
   apply (rule place_item_step, (simp add: full_eval; fail)+)
   apply (rule try_blocks_placed, (simp add: full_eval; fail)+)
   apply (rule place_item_step, (simp add: full_eval; fail)+)
   apply (rule try_blocks_placed, (simp add: full_eval; fail)+)
   apply (rule place_item_step, (simp add: full_eval; fail)+)
   apply (rule try_blocks_placed, (simp add: full_eval; fail)+)
   apply (rule place_item_step, (simp add: full_eval; fail)+)
   apply (rule try_blocks_placed, (simp add: full_eval; fail)+)
   apply (rule place_item_step, (simp add: full_eval; fail)+)
   apply (rule try_blocks_placed, (simp add: full_eval; fail)+)
   apply (rule place_item.simps(1))
  apply (simp add: full_eval full_entries_1_def entry_at_def)
  done
lemma full_setup: "setup_issues (full_db cap av) = []"
  by (simp add: setup_issues_def class_issues_def cls_subjects_def
      subject_ids_with_teachers_def full_db_def)

lemma full_generate_0:
  "\<exists>g'. generate_timetable 1 1 r (full_db cap av) empty_store (const_rng 0)
         = Returned [success_version] (success_store full_entries_0) g'"
proof -
  from full_search_0[of cap av] obtain s' where
    s: "place_item (make_ctx (full_db cap av))
          (fst (expand_items (full_db cap av) (const_rng 0)))
          (search_start
             (all_blocks [(1, day_grid 0 [''Tuesday'', ''Wednesday'', ''Thursday'', ''Friday'', ''Monday''] [])])
             \<lparr>draws = (\<lambda>_. 0), pos = 26\<rparr>) = Inr (True, s')"
    and p: "persist_blocks (make_ctx (full_db cap av)) 1 (empty_blocks s') = Inr full_entries_0"
    unfolding blocks_of_days_def full_items_0 fst_conv by blast
  have n: "next_id (map ver_id (versions empty_store)) = 1"
    by (simp add: empty_store_def next_id_def)
  have i: "expand_items (full_db cap av) (const_rng 0)
           = (fst (expand_items (full_db cap av) (const_rng 0)), \<lparr>draws = (\<lambda>_. 0), pos = 22\<rparr>)"
    by (simp only: full_items_0 fst_conv)
  from p have p': "persist_blocks (make_ctx (full_db cap av))
      (next_id (map ver_id (versions empty_store))) (empty_blocks s') = Inr full_entries_0"
    unfolding n .
  have c: "candidate 1 (full_db cap av) 0 empty_store (const_rng 0)
           = Inr (success_version\<lparr>is_active := False\<rparr>,
                  success_store full_entries_0\<lparr>versions := [success_version\<lparr>is_active := False\<rparr>]\<rparr>,
                  gen s')"
    unfolding candidate_success[OF i full_grids_0 s p', of 1 0] n
    by (simp add: success_version_def success_store_def empty_store_def)
  show ?thesis
    unfolding generate_timetable_one[OF c, of r]
    by (simp add: success_version_def success_store_def activate_only_def)
qed

lemma full_generate_1:
  "\<exists>g'. generate_timetable 1 1 r (full_db cap av) empty_store (const_rng 1)
         = Returned [success_version] (success_store full_entries_1) g'"
proof -
  from full_search_1[of cap av] obtain s' where
    s: "place_item (make_ctx (full_db cap av))
          (fst (expand_items (full_db cap av) (const_rng 1)))
          (search_start
             (all_blocks [(1, day_grid 0 [''Monday'', ''Wednesday'', ''Thursday'', ''Friday'', ''Tuesday''] [])])
             \<lparr>draws = (\<lambda>_. 1), pos = 26\<rparr>) = Inr (True, s')"
    and p: "persist_blocks (make_ctx (full_db cap av)) 1 (empty_blocks s') = Inr full_entries_1"
    unfolding blocks_of_days_def full_items_1 fst_conv by blast
  have n: "next_id (map ver_id (versions empty_store)) = 1"
    by (simp add: empty_store_def next_id_def)
  have i: "expand_items (full_db cap av) (const_rng 1)
           = (fst (expand_items (full_db cap av) (const_rng 1)), \<lparr>draws = (\<lambda>_. 1), pos = 22\<rparr>)"
    by (simp only: full_items_1 fst_conv)
  from p have p': "persist_blocks (make_ctx (full_db cap av))
      (next_id (map ver_id (versions empty_store))) (empty_blocks s') = Inr full_entries_1"
    unfolding n .
  have c: "candidate 1 (full_db cap av) 0 empty_store (const_rng 1)
           = Inr (success_version\<lparr>is_active := False\<rparr>,
                  success_store full_entries_1\<lparr>versions := [success_version\<lparr>is_active := False\<rparr>]\<rparr>,
                  gen s')"
    unfolding candidate_success[OF i full_grids_1 s p', of 1 0] n
    by (simp add: success_version_def success_store_def empty_store_def)
  show ?thesis
    unfolding generate_timetable_one[OF c, of r]
    by (simp add: success_version_def success_store_def activate_only_def)
qed

lemma full_route_0:
  "generate one_version 1 (full_db cap av) empty_store (const_rng 0)
   = (Created [success_version], success_store full_entries_0)"
proof -
  from full_generate_0[of 80 cap av] obtain g' where
    "generate_timetable 1 1 80 (full_db cap av) empty_store (const_rng 0)
     = Returned [success_version] (success_store full_entries_0) g'" by blast
  then show ?thesis
    by (simp add: generate_def full_setup one_version_def)
qed

lemma full_route_1:
  "generate one_version 1 (full_db cap av) empty_store (const_rng 1)
   = (Created [success_version], success_store full_entries_1)"
proof -
  from full_generate_1[of 80 cap av] obtain g' where
    "generate_timetable 1 1 80 (full_db cap av) empty_store (const_rng 1)
     = Returned [success_version] (success_store full_entries_1) g'" by blast
  then show ?thesis
    by (simp add: generate_def full_setup one_version_def)
qed

lemma full_detect_1:
  "detect_conflicts (full_db 40 []) (success_store full_entries_1) 1
   = Inr (replicate 8 \<lparr>c_type = ''subject_repeat'',
                        c_message = ''Subject repetition for class 1''\<rparr>)"
  by (simp add: detect_conflicts_def by_id_def full_db_def week_def day_slots_def
      success_store_def full_entries_1_def entry_at_def detect_start_def detect_entry_def
      report_if_def Let_def str_int_def)

lemma full_penalties_1:
  "morning_penalties (by_id sub_id (subjects (full_db 40 []))) (by_id slot_id (time_slots (full_db 40 [])))
     (filter (\<lambda>e. version_id e = 1) (entries (success_store full_entries_1))) 100
   = Inr (498 / 5)"
  by (simp add: by_id_def full_db_def week_def day_slots_def
      success_store_def full_entries_1_def entry_at_def)

lemma full_detect_capacity_0:
  "case detect_conflicts (full_db 20 []) (success_store full_entries_0) 1 of
     Inl e \<Rightarrow> False
   | Inr cs \<Rightarrow> length (filter (\<lambda>c. c_type c = ''room_capacity_mismatch'') cs) = 15"
  by (simp add: detect_conflicts_def by_id_def full_db_def week_def day_slots_def
      success_store_def full_entries_0_def entry_at_def detect_start_def detect_entry_def
      report_if_def Let_def str_int_def)

section \<open>What the search does not read\<close>

lemma make_ctx_availability: "make_ctx (db\<lparr>availability := av\<rparr>) = make_ctx db"
  by (simp add: make_ctx_def)

lemma expand_items_availability:
  "expand_items (db\<lparr>availability := av\<rparr>) g = expand_items db g"
  by (simp add: expand_items_def)

lemma candidate_availability:
  "candidate creator (db\<lparr>availability := av\<rparr>) index st g = candidate creator db index st g"
  unfolding candidate_def make_ctx_availability expand_items_availability by simp

lemma candidates_availability:
  "candidates creator (db\<lparr>availability := av\<rparr>) idxs gv st g = candidates creator db idxs gv st g"
  by (induction idxs arbitrary: gv st g)
    (simp_all add: candidate_availability split: sum.splits)

text \<open>
  C2 fails on the code. The search never reads the TeacherAvailability table:
  \<open>generate_timetable\<close> gives the same result whatever the table holds (the helper
  \<open>_load_availability\<close> is never called). On \<open>full_db\<close> with teacher 1 marked unavailable
  at slot 21 (Tuesday, first hour) the generate route answers 201 and persists an entry
  of teacher 1 at slot 21.
\<close>

theorem generate_ignores_availability:
  "generate_timetable creator n r (db\<lparr>availability := av\<rparr>) st g
     = generate_timetable creator n r db st g
   \<and> availability (full_db 40 [\<lparr>av_teacher_id = 1, av_time_slot_id = 21, is_available = False\<rparr>])
       = [\<lparr>av_teacher_id = 1, av_time_slot_id = 21, is_available = False\<rparr>]
   \<and> status_code (fst (generate one_version 1
         (full_db 40 [\<lparr>av_teacher_id = 1, av_time_slot_id = 21, is_available = False\<rparr>])
         empty_store (const_rng 0))) = 201
   \<and> \<lparr>version_id = 1, class_id = 1, subject_id = 16, teacher_id = 1, room_id = 2,
        time_slot_id = 21, is_locked = False\<rparr>
       \<in> set (entries (snd (generate one_version 1
         (full_db 40 [\<lparr>av_teacher_id = 1, av_time_slot_id = 21, is_available = False\<rparr>])
         empty_store (const_rng 0))))"
proof -
  have "generate_timetable creator n r (db\<lparr>availability := av\<rparr>) st g
        = generate_timetable creator n r db st g"
    by (simp add: generate_timetable_def candidates_availability)
  moreover have "\<lparr>version_id = 1, class_id = 1, subject_id = 16, teacher_id = 1, room_id = 2,
        time_slot_id = 21, is_locked = False\<rparr> \<in> set full_entries_0"
    by (simp add: full_entries_0_def entry_at_def)
  moreover have "availability (full_db 40 [\<lparr>av_teacher_id = 1, av_time_slot_id = 21, is_available = False\<rparr>])
       = [\<lparr>av_teacher_id = 1, av_time_slot_id = 21, is_available = False\<rparr>]"
    by (simp add: full_db_def)
  moreover have "entries (success_store full_entries_0) = full_entries_0"
    by (simp add: success_store_def)
  ultimately show ?thesis
    unfolding full_route_0 snd_conv fst_conv by simp
qed

text \<open>
  C3 fails on the code. \<open>generate_timetable\<close> stores the constant 100 for a successful
  candidate and never calls \<open>_score_schedule\<close>. On \<open>full_db\<close> with every draw 1 the
  stored score is 100, while the morning-priority subject 1 sits at slot 13 (Monday,
  order 3), so that the penalties alone give 99.6, and with the eight
  \<open>subject_repeat\<close> records the detector finds for the second slot of the lab blocks the
  scorer formula gives 19.6.
\<close>

theorem stored_score_is_constant:
  "status_code (fst (generate one_version 1 (full_db 40 []) empty_store (const_rng 1))) = 201
   \<and> map score (versions (snd (generate one_version 1 (full_db 40 []) empty_store (const_rng 1))))
       = [100]
   \<and> \<lparr>version_id = 1, class_id = 1, subject_id = 1, teacher_id = 1, room_id = 1,
        time_slot_id = 13, is_locked = False\<rparr>
       \<in> set (entries (snd (generate one_version 1 (full_db 40 []) empty_store (const_rng 1))))
   \<and> morning_penalties (by_id sub_id (subjects (full_db 40 [])))
         (by_id slot_id (time_slots (full_db 40 [])))
         (filter (\<lambda>e. version_id e = 1)
            (entries (snd (generate one_version 1 (full_db 40 []) empty_store (const_rng 1)))))
         100 = Inr (498 / 5)
   \<and> map c_type (case detect_conflicts (full_db 40 [])
         (snd (generate one_version 1 (full_db 40 []) empty_store (const_rng 1))) 1 of
            Inl e \<Rightarrow> [] | Inr cs \<Rightarrow> cs) = replicate 8 ''subject_repeat''
   \<and> score_schedule (full_db 40 [])
         (snd (generate one_version 1 (full_db 40 []) empty_store (const_rng 1))) 1
       = Inr (98 / 5)"
proof -
  have m: "\<lparr>version_id = 1, class_id = 1, subject_id = 1, teacher_id = 1, room_id = 1,
        time_slot_id = 13, is_locked = False\<rparr> \<in> set full_entries_1"
    by (simp add: full_entries_1_def entry_at_def)
  have s: "score_schedule (full_db 40 []) (success_store full_entries_1) 1 = Inr (98 / 5)"
    unfolding score_schedule_def full_penalties_1 full_detect_1
    by (simp add: round2_def)
  have v: "map score (versions (success_store full_entries_1)) = [100]"
    "entries (success_store full_entries_1) = full_entries_1"
    by (simp_all add: success_store_def success_version_def)
  show ?thesis
    unfolding full_route_1 snd_conv fst_conv full_detect_1 s
    using m full_penalties_1 by (simp add: v)
qed

text \<open>
  C4 fails on the code in its capacity half. The search takes the room from the pool of
  the block's type and filters nothing by capacity. On \<open>full_db\<close> with a classroom of
  capacity 20 for the class of 30 the generate route answers 201 and persists theory
  subject 15 in classroom 1; the detector of the same module reports
  \<open>room_capacity_mismatch\<close> for each of the fifteen theory entries of that schedule.
\<close>

theorem generate_ignores_capacity:
  "status_code (fst (generate one_version 1 (full_db 20 []) empty_store (const_rng 0))) = 201
   \<and> \<lparr>version_id = 1, class_id = 1, subject_id = 15, teacher_id = 1, room_id = 1,
        time_slot_id = 23, is_locked = False\<rparr>
       \<in> set (entries (snd (generate one_version 1 (full_db 20 []) empty_store (const_rng 0))))
   \<and> filter (\<lambda>r. rm_id r = 1) (rooms (full_db 20 []))
       = [\<lparr>rm_id = 1, capacity = 20, room_type = ''classroom''\<rparr>]
   \<and> filter (\<lambda>c. cls_id c = 1) (classes (full_db 20 []))
       = [\<lparr>cls_id = 1, cls_name = ''FY'', student_strength = 30\<rparr>]
   \<and> (case detect_conflicts (full_db 20 [])
              (snd (generate one_version 1 (full_db 20 []) empty_store (const_rng 0))) 1 of
         Inl e \<Rightarrow> False
       | Inr cs \<Rightarrow> length (filter (\<lambda>c. c_type c = ''room_capacity_mismatch'') cs) = 15)"
proof -
  have m: "\<lparr>version_id = 1, class_id = 1, subject_id = 15, teacher_id = 1, room_id = 1,
        time_slot_id = 23, is_locked = False\<rparr> \<in> set full_entries_0"
    by (simp add: full_entries_0_def entry_at_def)
  have v: "entries (success_store full_entries_0) = full_entries_0"
    by (simp add: success_store_def)
  have d: "filter (\<lambda>r. rm_id r = 1) (rooms (full_db 20 []))
       = [\<lparr>rm_id = 1, capacity = 20, room_type = ''classroom''\<rparr>]"
    "filter (\<lambda>c. cls_id c = 1) (classes (full_db 20 []))
       = [\<lparr>cls_id = 1, cls_name = ''FY'', student_strength = 30\<rparr>]"
    by (simp_all add: full_db_def)
  show ?thesis
    unfolding full_route_0 snd_conv fst_conv v d
    using m full_detect_capacity_0 by simp
qed

section \<open>Reproducibility\<close>


section \<open>The result depends on the generator through its future draws only\<close>







lemma same_search_refl_gen:
  "same_draws g g' \<Longrightarrow> same_search (st\<lparr>gen := g\<rparr>) (st\<lparr>gen := g'\<rparr>)"
  by (simp add: same_search_def)








end
